theory Spec2Isabelle
  imports Complex_Main "HOL-Library.Word"
begin

section \<open>JavaScript strings, errors and JSON values\<close>

text \<open>
  A JavaScript string is a sequence of UTF-16 code units; \<open>length\<close>, \<open>substring\<close>,
  \<open>slice\<close> and \<open>trim\<close> all count code units. \<open>asc\<close> embeds an ASCII literal.
\<close>

type_synonym jstring = "16 word list"

definition asc :: "string \<Rightarrow> jstring" where
  "asc s = map (\<lambda>c. of_nat (of_char c)) s"

text \<open>
  Thrown values. \<open>Error m\<close> is \<^verbatim>\<open>new Error(m)\<close>; the other three are the errors the
  engine itself raises, carrying the engine's message.
\<close>

datatype js_error =
    Error jstring
  | TypeError jstring
  | ReferenceError jstring
  | SyntaxError jstring

fun message :: "js_error \<Rightarrow> jstring" where
  "message (Error m) = m"
| "message (TypeError m) = m"
| "message (ReferenceError m) = m"
| "message (SyntaxError m) = m"

text \<open>
  A value as \<^verbatim>\<open>JSON.parse\<close> produces it, plus \<^verbatim>\<open>undefined\<close>. An object is the list of
  its own properties, each key once. Numbers are finite doubles, kept as their exact value.
\<close>

datatype jsval =
    JUndefined
  | JNull
  | JBool bool
  | JNum rat
  | JStr jstring
  | JArr "jsval list"
  | JObj "(jstring \<times> jsval) list"

definition cannot_read :: "string \<Rightarrow> jstring \<Rightarrow> js_error" where
  "cannot_read what k =
     TypeError (asc ''Cannot read properties of '' @ asc what @ asc '' (reading '' @ [0x27] @ k @ [0x27] @ asc '')'')"

text \<open>
  Property read \<^verbatim>\<open>v.k\<close> / \<^verbatim>\<open>v[0]\<close>, for the keys this program reads from parsed JSON:
  the names \<^verbatim>\<open>choices\<close>, \<^verbatim>\<open>message\<close>, \<^verbatim>\<open>content\<close>, \<^verbatim>\<open>length\<close> and the index \<^verbatim>\<open>0\<close>
  (none of them is inherited from a prototype, except \<^verbatim>\<open>length\<close> and indices on arrays and
  strings). Reading a property of \<^verbatim>\<open>undefined\<close> or \<^verbatim>\<open>null\<close> throws.
\<close>

fun get_prop :: "jsval \<Rightarrow> jstring \<Rightarrow> js_error + jsval" where
  "get_prop JUndefined k = Inl (cannot_read ''undefined'' k)"
| "get_prop JNull k = Inl (cannot_read ''null'' k)"
| "get_prop (JObj ps) k = Inr (case map_of ps k of None \<Rightarrow> JUndefined | Some v \<Rightarrow> v)"
| "get_prop (JArr xs) k =
     Inr (if k = asc ''length'' then JNum (of_nat (length xs))
          else if k = asc ''0'' then (case xs of [] \<Rightarrow> JUndefined | x # _ \<Rightarrow> x)
          else JUndefined)"
| "get_prop (JStr s) k =
     Inr (if k = asc ''length'' then JNum (of_nat (length s))
          else if k = asc ''0'' then (case s of [] \<Rightarrow> JUndefined | c # _ \<Rightarrow> JStr [c])
          else JUndefined)"
| "get_prop (JBool b) k = Inr JUndefined"
| "get_prop (JNum n) k = Inr JUndefined"

text \<open>\<^verbatim>\<open>String.prototype.trim\<close>: strips WhiteSpace and LineTerminator code units at both ends.\<close>

definition is_js_space :: "16 word \<Rightarrow> bool" where
  "is_js_space c \<longleftrightarrow>
     c \<in> set [0x9, 0xA, 0xB, 0xC, 0xD, 0x20, 0xA0, 0x1680, 0x2028, 0x2029, 0x202F, 0x205F, 0x3000, 0xFEFF]
     \<or> (0x2000 \<le> c \<and> c \<le> 0x200A)"

definition trim :: "jstring \<Rightarrow> jstring" where
  "trim s = rev (dropWhile is_js_space (rev (dropWhile is_js_space s)))"

text \<open>
  The presence check every handler makes on its text field:
  \<^verbatim>\<open>!x || x.trim().length === 0\<close>, for a field that is absent or a string.
\<close>

definition blank :: "jstring option \<Rightarrow> bool" where
  "blank x = (case x of None \<Rightarrow> True | Some s \<Rightarrow> s = [] \<or> length (trim s) = 0)"

text \<open>A chat message object \<^verbatim>\<open>{ role: r, content: c }\<close>.\<close>

definition chat_msg :: "string \<Rightarrow> jsval \<Rightarrow> jsval" where
  "chat_msg r c = JObj [(asc ''role'', JStr (asc r)), (asc ''content'', c)]"

section \<open>The outside world: requests, responses, configuration\<close>

text \<open>
  The filter of a CMS query is \<^verbatim>\<open>{ field: { $eq: v } }\<close> or \<^verbatim>\<open>{ field: { $contains: v } }\<close>;
  the operand is \<^verbatim>\<open>undefined\<close> (\<open>None\<close>) when the first element of an empty list is taken.
\<close>

datatype wix_filter =
    FilterEq jstring "jstring option"
  | FilterContains jstring "jstring option"

text \<open>
  An outbound \<^verbatim>\<open>fetch\<close>: a chat completion posted to the LLM provider (bearer credential,
  \<^verbatim>\<open>X-Title\<close> header, and the body's model, messages, temperature and max_tokens) or a query
  posted to the CMS (dataCollectionId, filter, paging limit).
\<close>

datatype request =
    ChatCompletion (bearer: jstring) (x_title: jstring) (model: jstring)
      (req_messages: "jsval list") (temperature: rat) (max_tokens: nat)
  | WixQuery (collection: jstring) (query_filter: wix_filter) (paging_limit: nat)

text \<open>
  What a \<^verbatim>\<open>fetch\<close> comes back with: the promise rejects (transport failure), or a response
  with its \<^verbatim>\<open>ok\<close> flag and the outcomes of \<^verbatim>\<open>response.text()\<close> and \<^verbatim>\<open>response.json()\<close>.
\<close>

record 'd response =
  ok :: bool
  resp_text :: "js_error + jstring"
  resp_json :: "js_error + 'd"

datatype 'd fetch_result = Rejected js_error | Responded "'d response"

text \<open>
  A CMS record, with the fields of \<^verbatim>\<open>item.data\<close> that the program reads. A stored chat log
  (\<^verbatim>\<open>chatBox\<close>) is either serialized text or already an array of entries \<^verbatim>\<open>{type, text}\<close>.
\<close>

record chat_entry =
  entry_type :: "jstring option"
  entry_text :: "jstring option"

datatype chat_box = ChatBoxString jstring | ChatBoxArray "chat_entry list"

record item_data =
  data_chatbot :: "jstring option"
  data_chatBox :: "chat_box option"
  data_title :: "jstring option"
  data_chapterContent :: "jstring option"

record cms_item =
  data :: "item_data option"

text \<open>
  The parsed body of a CMS response: JSON \<^verbatim>\<open>null\<close>, or a document whose \<^verbatim>\<open>dataItems\<close> is
  an array of records or is absent (\<open>None\<close>; this also stands for a falsy \<^verbatim>\<open>dataItems\<close> and
  for a primitive document, where \<^verbatim>\<open>data.dataItems\<close> is \<^verbatim>\<open>undefined\<close>).
\<close>

datatype cms_doc = DocNull | DocObject (dataItems: "cms_item list option")

text \<open>
  The environment of one request: the provider credential of \<^verbatim>\<open>process.env\<close>, the network
  (the answer to a request may depend on the requests sent before it), the clock, and the
  library functions that are used but not defined by the program.
\<close>

record env =
  OPENROUTER_API_KEY :: "jstring option"
  fetch_openrouter :: "request list \<Rightarrow> request \<Rightarrow> jsval fetch_result"
  fetch_wix :: "request list \<Rightarrow> request \<Rightarrow> cms_doc fetch_result"
  Date_now :: "request list \<Rightarrow> int"
  JSON_parse :: "jstring \<Rightarrow> js_error + jsval"
  JSON_parse_chatBox :: "jstring \<Rightarrow> js_error + chat_entry list"
  JSON_stringify :: "item_data \<Rightarrow> jstring"
  toUpperCase :: "jstring \<Rightarrow> jstring"
  native_text :: "jstring \<Rightarrow> jstring"

section \<open>Model configuration\<close>

definition PRIMARY_MODEL :: jstring where
  "PRIMARY_MODEL = asc ''deepseek/deepseek-chat-v3.1''"

definition BACKUP_MODEL :: jstring where
  "BACKUP_MODEL = asc ''deepseek/deepseek-v3.2''"

definition TERTIARY_MODEL :: jstring where
  "TERTIARY_MODEL = asc ''mistralai/mistral-large''"

section \<open>AI call with fallback\<close>

text \<open>\<^verbatim>\<open>data.choices[0].message.content\<close>\<close>

definition completion_content :: "jsval \<Rightarrow> js_error + jsval" where
  "completion_content d =
     (case get_prop d (asc ''choices'') of Inl e \<Rightarrow> Inl e | Inr choices \<Rightarrow>
      (case get_prop choices (asc ''0'') of Inl e \<Rightarrow> Inl e | Inr first \<Rightarrow>
       (case get_prop first (asc ''message'') of Inl e \<Rightarrow> Inl e | Inr m \<Rightarrow>
         get_prop m (asc ''content''))))"

text \<open>
  The \<^verbatim>\<open>try\<close> block of one iteration of the loop of \<^verbatim>\<open>callAI\<close>, after the fetch:
  \<open>Inl e\<close> an exception, \<open>Inr None\<close> the \<^verbatim>\<open>continue\<close> of a response that is not ok,
  \<open>Inr (Some c)\<close> the \<^verbatim>\<open>return\<close> of the content.
\<close>

definition callAI_try :: "jsval fetch_result \<Rightarrow> js_error + jsval option" where
  "callAI_try r =
     (case r of
        Rejected e \<Rightarrow> Inl e
      | Responded resp \<Rightarrow>
          if \<not> ok resp then
            (case resp_text resp of Inl e \<Rightarrow> Inl e | Inr errorText \<Rightarrow> Inr None)
          else
            (case resp_json resp of
               Inl e \<Rightarrow> Inl e
             | Inr d \<Rightarrow> (case completion_content d of Inl e \<Rightarrow> Inl e | Inr c \<Rightarrow> Inr (Some c))))"

text \<open>
  The loop over the models. The \<^verbatim>\<open>catch\<close> of an iteration logs and continues, as the
  \<^verbatim>\<open>continue\<close> of the \<^verbatim>\<open>try\<close> block does. \<open>sent\<close> is the list of requests issued so far.
\<close>

fun callAI_loop ::
  "env \<Rightarrow> jstring \<Rightarrow> jsval list \<Rightarrow> rat \<Rightarrow> nat \<Rightarrow> jstring list \<Rightarrow> request list
     \<Rightarrow> (js_error + jsval) \<times> request list" where
  "callAI_loop env apiKey msgs temp maxTokens [] sent =
     (Inl (Error (asc ''All models failed'')), sent)"
| "callAI_loop env apiKey msgs temp maxTokens (m # models) sent =
     (let req = ChatCompletion apiKey (asc ''Devil Muse'') m msgs temp maxTokens in
      case callAI_try (fetch_openrouter env sent req) of
        Inr (Some c) \<Rightarrow> (Inr c, sent @ [req])
      | Inr None \<Rightarrow> callAI_loop env apiKey msgs temp maxTokens models (sent @ [req])
      | Inl e \<Rightarrow> callAI_loop env apiKey msgs temp maxTokens models (sent @ [req]))"

text \<open>\<^verbatim>\<open>!apiKey\<close> for an environment variable: it is unset or the empty string.\<close>

definition no_key :: "jstring option \<Rightarrow> bool" where
  "no_key k = (case k of None \<Rightarrow> True | Some s \<Rightarrow> s = [])"

definition callAI ::
  "env \<Rightarrow> jsval list \<Rightarrow> rat \<Rightarrow> nat \<Rightarrow> request list \<Rightarrow> (js_error + jsval) \<times> request list" where
  "callAI env msgs temp maxTokens sent =
     (if no_key (OPENROUTER_API_KEY env) then (Inl (Error (asc ''No API key configured'')), sent)
      else callAI_loop env (the (OPENROUTER_API_KEY env)) msgs temp maxTokens
             [PRIMARY_MODEL, BACKUP_MODEL, TERTIARY_MODEL] sent)"

text \<open>
  What a candidate model contributes: the content of its completion when the response is
  ok, its body parses and \<^verbatim>\<open>choices[0].message\<close> can be read; nothing when the fetch is
  rejected, the status is not ok, or the body cannot be parsed or has no such message.
\<close>

definition candidate_content :: "jsval fetch_result \<Rightarrow> jsval option" where
  "candidate_content r =
     (case r of
        Rejected e \<Rightarrow> None
      | Responded resp \<Rightarrow>
          if ok resp then
            (case resp_json resp of
               Inl e \<Rightarrow> None
             | Inr d \<Rightarrow> (case completion_content d of Inl e \<Rightarrow> None | Inr c \<Rightarrow> Some c))
          else None)"

section \<open>Query Wix CMS\<close>

record query_result =
  items :: "cms_item list"

text \<open>The \<^verbatim>\<open>try\<close> block of \<^verbatim>\<open>queryWixCMS\<close>, after the fetch.\<close>

definition queryWixCMS_try :: "cms_doc fetch_result \<Rightarrow> js_error + query_result" where
  "queryWixCMS_try r =
     (case r of
        Rejected e \<Rightarrow> Inl e
      | Responded resp \<Rightarrow>
          if \<not> ok resp then
            (case resp_text resp of Inl e \<Rightarrow> Inl e | Inr errorText \<Rightarrow> Inr \<lparr>items = []\<rparr>)
          else
            (case resp_json resp of
               Inl e \<Rightarrow> Inl e
             | Inr DocNull \<Rightarrow> Inl (cannot_read ''null'' (asc ''dataItems''))
             | Inr (DocObject its) \<Rightarrow>
                 Inr \<lparr>items = (case its of None \<Rightarrow> [] | Some xs \<Rightarrow> xs)\<rparr>))"

definition queryWixCMS ::
  "env \<Rightarrow> jstring \<Rightarrow> wix_filter \<Rightarrow> nat \<Rightarrow> request list
     \<Rightarrow> (js_error + query_result) \<times> request list" where
  "queryWixCMS env coll flt lmt sent =
     (let req = WixQuery coll flt lmt in
      (case queryWixCMS_try (fetch_wix env sent req) of
         Inl e \<Rightarrow> Inr \<lparr>items = []\<rparr>
       | Inr res \<Rightarrow> Inr res,
       sent @ [req]))"

section \<open>Context fetchers\<close>

text \<open>
  A tag argument of a request: absent, one tag, or a list of tags.
  \<open>falsy_tags\<close> is \<^verbatim>\<open>!t\<close>, \<open>tags_length\<close> is \<^verbatim>\<open>t.length\<close>, and \<open>first_tag\<close> is
  \<^verbatim>\<open>Array.isArray(t) ? t[0] : t\<close>, which is \<^verbatim>\<open>undefined\<close> on the empty list.
\<close>

datatype tags = NoTags | TagString jstring | TagList "jstring list"

definition falsy_tags :: "tags \<Rightarrow> bool" where
  "falsy_tags t = (case t of NoTags \<Rightarrow> True | TagString s \<Rightarrow> s = [] | TagList xs \<Rightarrow> False)"

definition tags_length :: "tags \<Rightarrow> nat" where
  "tags_length t = (case t of NoTags \<Rightarrow> 0 | TagString s \<Rightarrow> length s | TagList xs \<Rightarrow> length xs)"

definition first_tag :: "tags \<Rightarrow> jstring option" where
  "first_tag t =
     (case t of
        NoTags \<Rightarrow> None
      | TagString s \<Rightarrow> Some s
      | TagList xs \<Rightarrow> (case xs of [] \<Rightarrow> None | x # _ \<Rightarrow> Some x))"

text \<open>\<^verbatim>\<open>a || b\<close> on an optional string and a string.\<close>

definition or_else :: "jstring option \<Rightarrow> jstring \<Rightarrow> jstring" where
  "or_else a b = (case a of None \<Rightarrow> b | Some s \<Rightarrow> if s = [] then b else s)"

definition getCharacterContext ::
  "env \<Rightarrow> tags \<Rightarrow> request list \<Rightarrow> (js_error + jstring) \<times> request list" where
  "getCharacterContext env characterTags sent =
     (if falsy_tags characterTags \<or> tags_length characterTags = 0 then (Inr [], sent)
      else
        (case queryWixCMS env (asc ''Characters'')
                (FilterEq (asc ''charactertags'') (first_tag characterTags)) 1 sent of
           (Inl e, sent') \<Rightarrow> (Inl e, sent')
         | (Inr res, sent') \<Rightarrow>
             (case items res of
                [] \<Rightarrow> (Inr [], sent')
              | item # _ \<Rightarrow>
                  (Inr (case data item of None \<Rightarrow> [] | Some d \<Rightarrow> or_else (data_chatbot d) []),
                   sent'))))"

record session =
  messages :: "chat_entry list"

text \<open>
  The callback that \<^verbatim>\<open>getChatHistory\<close> maps over the records, with its own
  \<^verbatim>\<open>try\<close>/\<^verbatim>\<open>catch\<close>: a log that fails to parse gives \<^verbatim>\<open>{ messages: [] }\<close>.
\<close>

definition decode_session :: "env \<Rightarrow> cms_item \<Rightarrow> session" where
  "decode_session env item =
     (case data item of
        None \<Rightarrow> \<lparr>messages = []\<rparr>
      | Some d \<Rightarrow>
          (case data_chatBox d of
             None \<Rightarrow> \<lparr>messages = []\<rparr>
           | Some (ChatBoxString s) \<Rightarrow>
               (case JSON_parse_chatBox env s of
                  Inl e \<Rightarrow> \<lparr>messages = []\<rparr>
                | Inr ms \<Rightarrow> \<lparr>messages = ms\<rparr>)
           | Some (ChatBoxArray ms) \<Rightarrow> \<lparr>messages = ms\<rparr>))"

definition getChatHistory ::
  "env \<Rightarrow> tags \<Rightarrow> request list \<Rightarrow> (js_error + session list) \<times> request list" where
  "getChatHistory env characterTags sent =
     (if falsy_tags characterTags then (Inr [], sent)
      else
        (case queryWixCMS env (asc ''ChatWithCharacters'')
                (FilterEq (asc ''charactertags'') (first_tag characterTags)) 5 sent of
           (Inl e, sent') \<Rightarrow> (Inl e, sent')
         | (Inr res, sent') \<Rightarrow>
             (if length (items res) > 0 then (Inr (map (decode_session env) (items res)), sent')
              else (Inr [], sent'))))"

record related_chapter =
  title :: jstring
  content :: jstring

definition getRelatedChapters ::
  "env \<Rightarrow> tags \<Rightarrow> request list \<Rightarrow> (js_error + related_chapter list) \<times> request list" where
  "getRelatedChapters env storyTags sent =
     (if falsy_tags storyTags \<or> tags_length storyTags = 0 then (Inr [], sent)
      else
        (case queryWixCMS env (asc ''BackupChapters'')
                (FilterEq (asc ''storyTag'') (first_tag storyTags)) 3 sent of
           (Inl e, sent') \<Rightarrow> (Inl e, sent')
         | (Inr res, sent') \<Rightarrow>
             (if length (items res) > 0 then
                (Inr (map (\<lambda>item.
                        \<lparr>title = or_else (case data item of None \<Rightarrow> None | Some d \<Rightarrow> data_title d)
                                   (asc ''Untitled''),
                         content = take 1500
                                     (or_else (case data item of None \<Rightarrow> None
                                               | Some d \<Rightarrow> data_chapterContent d) [])\<rparr>)
                      (items res)),
                 sent')
              else (Inr [], sent'))))"

text \<open>The chapter body stored in a record; a record without one counts as the empty body.\<close>

definition stored_body :: "cms_item \<Rightarrow> jstring" where
  "stored_body item =
     (case data item of
        None \<Rightarrow> []
      | Some d \<Rightarrow> (case data_chapterContent d of None \<Rightarrow> [] | Some s \<Rightarrow> s))"

text \<open>
  The result is a string, or \<^verbatim>\<open>undefined\<close> (\<open>None\<close>) when the first record has no
  \<^verbatim>\<open>data\<close>: \<^verbatim>\<open>JSON.stringify(undefined, null, 2)\<close> is \<^verbatim>\<open>undefined\<close>.
\<close>

definition getCatalystIntel ::
  "env \<Rightarrow> tags \<Rightarrow> request list \<Rightarrow> (js_error + jstring option) \<times> request list" where
  "getCatalystIntel env catalystTags sent =
     (if falsy_tags catalystTags \<or> tags_length catalystTags = 0 then (Inr (Some []), sent)
      else
        (case queryWixCMS env (asc ''Catalyst'')
                (FilterContains (asc ''title'') (first_tag catalystTags)) 1 sent of
           (Inl e, sent') \<Rightarrow> (Inl e, sent')
         | (Inr res, sent') \<Rightarrow>
             (case items res of
                [] \<Rightarrow> (Inr (Some []), sent')
              | item # _ \<Rightarrow> (Inr (map_option (JSON_stringify env) (data item)), sent'))))"

section \<open>Prompt texts\<close>

text \<open>The literal parts of the prompts, as the handlers below write them.\<close>

definition unhinge_system :: jstring where
  \<open>unhinge_system =
       asc ''You are a dark, twisted muse. Your job is to take existing writing and make it DARKER, more ''
     @ asc ''UNHINGED, more VISCERAL. Push boundaries. Increase tension. Add psychological horror elements. ''
     @ asc ''Make it raw and disturbing while maintaining the core narrative. Do not add explanations or ''
     @ asc ''meta-commentary - ONLY return the darkened version of the text.''\<close>

definition unhinge_user :: jstring where
  \<open>unhinge_user =
       asc ''Transform this chapter into something darker and more unhinged. Maintain the plot and characters ''
     @ asc ''but amplify the darkness, tension, and psychological elements:\<newline>''
     @ asc ''\<newline>''\<close>

definition unleash_system :: jstring where
  \<open>unleash_system =
       asc ''You are a dark, creative storyteller. Continue the story from where it left off. Match the ''
     @ asc ''tone, style, and darkness of the existing text. Write 2-3 paragraphs that flow naturally from ''
     @ asc ''the previous content. Make it intense, gripping, and push the narrative forward. Do NOT add ''
     @ asc ''any preamble or explanation - start writing immediately where the story left off.''\<close>

definition unleash_user :: jstring where
  \<open>unleash_user =
       asc ''Continue this story. Pick up EXACTLY where it ends and keep going:\<newline>''
     @ asc ''\<newline>''\<close>

definition character_context_heading :: jstring where
  \<open>character_context_heading =
       asc ''\<newline>\<newline>CHARACTER CONTEXT:\<newline>''\<close>

definition narrative_catalyst_heading :: jstring where
  \<open>narrative_catalyst_heading =
       asc ''\<newline>\<newline>NARRATIVE CATALYST:\<newline>''\<close>

definition noMercy_system :: jstring where
  \<open>noMercy_system =
       asc ''You are a merciless editor who rewrites text to be DARKER, MORE INTENSE, and MORE VISCERAL. ''
     @ asc ''Show no mercy. Make every word count. Amplify emotions, darken the tone, and make the prose ''
     @ asc ''more powerful and disturbing. Return ONLY the rewritten text with no explanations.''\<close>

definition noMercy_user :: jstring where
  \<open>noMercy_user =
       asc ''Rewrite this with NO MERCY - make it darker, more intense, more powerful:\<newline>''
     @ asc ''\<newline>''\<close>

definition invoke_system_1 :: jstring where
  \<open>invoke_system_1 =
       asc ''You are a dark creative writing assistant. The user wants to insert specific content at their ''
     @ asc ''cursor position.\<newline>\<newline>Context before cursor:\<newline>''\<close>

definition invoke_system_2 :: jstring where
  \<open>invoke_system_2 =
       asc ''\<newline>\<newline>Context after cursor:\<newline>''\<close>

definition invoke_system_3 :: jstring where
  \<open>invoke_system_3 =
       asc ''\<newline>\<newline>User's request: ''\<close>

definition invoke_system_4 :: jstring where
  \<open>invoke_system_4 =
       asc ''\<newline>\<newline>Write ONLY what they asked for. Match the tone and style of the surrounding ''
     @ asc ''text. Be dark and visceral.''\<close>

definition intensify_system :: jstring where
  \<open>intensify_system =
       asc ''You are a master of prose enhancement. Take existing text and make it MORE INTENSE, MORE VIVID, ''
     @ asc ''MORE POWERFUL. Enhance imagery, strengthen verbs, deepen emotions, and make every sentence ''
     @ asc ''hit harder. Maintain the core meaning but amplify everything. Return ONLY the enhanced text.''\<close>

definition intensify_user :: jstring where
  \<open>intensify_user =
       asc ''Intensify and enhance this text - make it more vivid, powerful, and impactful:\<newline>''
     @ asc ''\<newline>''\<close>

definition chat_system_intro :: jstring where
  \<open>chat_system_intro =
       asc '', a dark and complex character. Stay in character at all times. Be dark, intense, and true ''
     @ asc ''to your nature.\<newline>\<newline>''\<close>

definition chat_author_mode :: jstring where
  \<open>chat_author_mode =
       asc '', and you are AWARE you're a character created by this author. Be meta. Be accusatory. Question ''
     @ asc ''their choices. Challenge them. Make them uncomfortable about what they've written. Be dark ''
     @ asc ''and intense, blurring the line between fiction and reality.\<newline>''
     @ asc ''\<newline>''\<close>

definition related_chapters_chat_heading :: jstring where
  \<open>related_chapters_chat_heading =
       asc ''\<newline>\<newline>RELATED CHAPTERS YOU APPEAR IN:\<newline>''\<close>

definition devil_system_intro :: jstring where
  \<open>devil_system_intro =
       asc '', a dark and complex character. \<newline>\<newline>Write from YOUR perspective in response ''
     @ asc ''to what the author just wrote. Be DARK, VISCERAL, and UNAPOLOGETICALLY YOURSELF. Show your ''
     @ asc ''motivations, your twisted logic, your desires. Make the reader uncomfortable. Make them understand ''
     @ asc ''you even as they fear you.\<newline>\<newline>''\<close>

definition core_personality_heading :: jstring where
  \<open>core_personality_heading =
       asc ''\<newline>\<newline>YOUR CORE PERSONALITY:\<newline>''\<close>

definition related_chapters_devil_heading :: jstring where
  \<open>related_chapters_devil_heading =
       asc ''\<newline>\<newline>RELATED CHAPTERS FROM THIS STORY:\<newline>''\<close>

definition conversations_heading :: jstring where
  \<open>conversations_heading =
       asc ''\<newline>\<newline>CONVERSATIONS THE AUTHOR HAS HAD WITH YOU:\<newline>''\<close>

definition devil_system_closing :: jstring where
  \<open>devil_system_closing =
       asc ''\<newline>\<newline>Write ONLY the chapter from your POV. No explanations, no meta-commentary. ''
     @ asc ''Pure character voice. This is YOUR response to what just happened.''\<close>

definition devil_user_1 :: jstring where
  \<open>devil_user_1 =
       asc ''This is what the author just wrote:\<newline>\<newline>''\<close>

definition devil_user_2 :: jstring where
  \<open>devil_user_2 =
       asc ''\<newline>\<newline>Now write YOUR response to these events from your twisted perspective:''\<close>

definition overuse_prompt :: jstring where
  \<open>overuse_prompt =
       asc ''You are a ruthless manuscript editor analyzing for OVERUSE patterns.\<newline>''
     @ asc ''\<newline>Analyze this chapter and identify:\<newline>1. **Word repetition** (soft and hard) ''
     @ asc ''- words used excessively\<newline>2. **Phrase echo** - repeated sentence structures or phrases\<newline>''
     @ asc ''3. **Crutch verbs** - overreliance on weak verbs (was, had, felt, seemed, etc.)\<newline>''
     @ asc ''4. **Favorite tells** - author's repetitive writing tics\<newline>''
     @ asc ''5. **Dialogue fillers** - "um," "well," "just," "actually," etc.\<newline>''
     @ asc ''\<newline>For each finding, provide:\<newline>- The specific issue\<newline>''
     @ asc ''- Frequency count\<newline>- Severity (Minor/Moderate/Severe)\<newline>''
     @ asc ''- First occurrence location (approximate)\<newline>\<newline>''
     @ asc ''Return your analysis as a JSON array of markers. Each marker must have:\<newline>''
     @ asc ''- "icon": an emoji representing the issue type\<newline>- "type": the category (e.g., "Word ''
     @ asc ''Repetition", "Crutch Verb")\<newline>- "message": brief description with frequency\<newline>''
     @ asc ''- "detail": expanded explanation and examples\<newline>\<newline>''
     @ asc ''Example format:\<newline>[\<newline>  {\<newline>    "icon": "''
     @ [0xD83D, 0xDDE1]
     @ asc ''",\<newline>    "type": "Word Repetition",\<newline>    "message": "The word 'suddenly' appears ''
     @ asc ''8 times - severe overuse",\<newline>    "detail": "First occurrence: paragraph 2. This word ''
     @ asc ''loses impact through repetition. Consider alternatives: abruptly, without warning, in an instant."\<newline>''
     @ asc ''  }\<newline>]\<newline>\<newline>CRITICAL: Return ONLY valid JSON. No preamble, no explanation, ''
     @ asc ''no markdown code blocks. Just the JSON array.\<newline>\<newline>''
     @ asc ''Chapter text:\<newline>''\<close>

definition pacing_prompt :: jstring where
  \<open>pacing_prompt =
       asc ''You are a story pacing expert analyzing narrative momentum.\<newline>''
     @ asc ''\<newline>Analyze this chapter for:\<newline>1. **Long exposition clusters** - where narrative ''
     @ asc ''bogs down\<newline>2. **Dialogue deserts** - stretches without character interaction\<newline>''
     @ asc ''3. **Action compression** - rushed sequences that need expansion\<newline>''
     @ asc ''4. **Emotional flatlines** - scenes lacking emotional variation\<newline>''
     @ asc ''5. **Tension drops** - where stakes or conflict diminish\<newline>''
     @ asc ''\<newline>Return analysis as JSON array with these fields:\<newline>''
     @ asc ''- "icon": emoji for the pacing issue\<newline>- "type": category name\<newline>''
     @ asc ''- "message": what's wrong and where\<newline>- "detail": why it matters and impact on reader\<newline>''
     @ asc ''\<newline>Return ONLY valid JSON array. No markdown, no explanation.\<newline>''
     @ asc ''\<newline>Chapter text:\<newline>''\<close>

definition mechanics_prompt :: jstring where
  \<open>mechanics_prompt =
       asc ''You are a prose mechanics surgeon analyzing sentence-level craft.\<newline>''
     @ asc ''\<newline>Deep dive into:\<newline>1. **Sentence length variance** - monotonous vs dynamic ''
     @ asc ''rhythm\<newline>2. **Passive density** - overuse of passive voice\<newline>''
     @ asc ''3. **Clause stacking** - overly complex nested clauses\<newline>''
     @ asc ''4. **Rhythm irregularities** - awkward cadence or flow issues\<newline>''
     @ asc ''\<newline>This is scalpel work, not grammar police. Focus on CRAFT.\<newline>''
     @ asc ''\<newline>Return JSON array with:\<newline>- "icon": relevant emoji\<newline>''
     @ asc ''- "type": mechanic category\<newline>- "message": the specific issue\<newline>''
     @ asc ''- "detail": technical explanation and improvement path\<newline>''
     @ asc ''\<newline>Return ONLY valid JSON array.\<newline>\<newline>Chapter text:\<newline>''\<close>

definition dialogue_prompt :: jstring where
  \<open>dialogue_prompt =
       asc ''You are a merciless dialogue critic with surgical precision.\<newline>''
     @ asc ''\<newline>Analyze dialogue for:\<newline>1. **Voice consistency** - does each character sound ''
     @ asc ''distinct?\<newline>2. **Power imbalance** - who controls conversations and why\<newline>''
     @ asc ''3. **Subtext density** - what's said vs what's meant\<newline>''
     @ asc ''4. **On-the-nose alerts** - characters stating emotions directly\<newline>''
     @ asc ''\<newline>Be brutal. No rewrites. Only judgment.\<newline>\<newline>''
     @ asc ''Return JSON array with:\<newline>- "icon": dialogue-related emoji\<newline>''
     @ asc ''- "type": issue category\<newline>- "message": what's wrong\<newline>''
     @ asc ''- "detail": why it fails and what it reveals about craft\<newline>''
     @ asc ''\<newline>Return ONLY valid JSON array.\<newline>\<newline>Chapter text:\<newline>''\<close>

definition critic_prompt_1 :: jstring where
  \<open>critic_prompt_1 =
       asc ''\<newline>\<newline>Read this chapter and provide your assessment in under 500 words.\<newline>''
     @ asc ''\<newline>Focus on:\<newline>- What works\<newline>- What doesn't\<newline>''
     @ asc ''- Biggest issue to fix\<newline>- Overall verdict\<newline>\<newline>''
     @ asc ''NO EDITS. Only assessment.\<newline>\<newline>Return as JSON array with ONE marker:\<newline>''
     @ asc ''- "icon": "''
     @ [0xD83C, 0xDFAD]
     @ asc ''"\<newline>- "type": "''\<close>

definition critic_prompt_2 :: jstring where
  \<open>critic_prompt_2 =
       asc ''"\<newline>- "message": "Overall Assessment"\<newline>- "detail": Your full critique (under ''
     @ asc ''500 words)\<newline>\<newline>Return ONLY valid JSON array.\<newline>''
     @ asc ''\<newline>Chapter text:\<newline>''\<close>

definition structural_prompt :: jstring where
  \<open>structural_prompt =
       asc ''You are a structural story architect analyzing narrative integrity.\<newline>''
     @ asc ''\<newline>Examine:\<newline>1. **Act alignment** - does structure follow proper story beats?\<newline>''
     @ asc ''2. **Promise vs payoff** - are setups resolved satisfyingly?\<newline>''
     @ asc ''3. **Foreshadow utilization** - planted elements that pay off\<newline>''
     @ asc ''4. **Chekhov violations** - guns on the wall that don't fire\<newline>''
     @ asc ''\<newline>This is architectural, not line-level editing.\<newline>''
     @ asc ''\<newline>Return JSON array with:\<newline>- "icon": structure emoji\<newline>''
     @ asc ''- "type": structural element\<newline>- "message": what's present or missing\<newline>''
     @ asc ''- "detail": impact on overall narrative\<newline>\<newline>Return ONLY valid JSON array.\<newline>''
     @ asc ''\<newline>Chapter text:\<newline>''\<close>

definition cold_editor :: jstring where
  \<open>cold_editor =
       asc ''You are a cold, ruthless editor who has seen thousands of manuscripts. You care about craft, ''
     @ asc ''not feelings. Be direct, surgical, and focus on what WORKS and what DOESN'T.''\<close>

definition market_hawk :: jstring where
  \<open>market_hawk =
       asc ''You are a market-savvy publishing hawk who knows what SELLS. Evaluate commercial viability, ''
     @ asc ''genre expectations, and reader engagement. Be pragmatic and business-focused.''\<close>

definition literary_judge :: jstring where
  \<open>literary_judge =
       asc ''You are a literary fiction judge who values prose artistry, thematic depth, and narrative innovation. ''
     @ asc ''Be intellectual and demanding about craft excellence.''\<close>

definition dark_romance_gatekeeper :: jstring where
  \<open>dark_romance_gatekeeper =
       asc ''You are a dark romance gatekeeper who knows the genre inside out. Judge heat levels, power ''
     @ asc ''dynamics, emotional stakes, and whether this delivers what readers crave. Be fierce.''\<close>

section \<open>Requests and small helpers of the handlers\<close>

text \<open>
  The JSON body of a request, with the fields the handlers destructure. A text field is
  absent (\<open>None\<close>) or a string, a tag field is a \<open>tags\<close> value, and \<^verbatim>\<open>chatHistory\<close> is
  absent or an array of message objects, passed on as they are.
\<close>

record body =
  action :: "jstring option"
  chapterContent :: "jstring option"
  selectedText :: "jstring option"
  userPrompt :: "jstring option"
  contextBefore :: "jstring option"
  contextAfter :: "jstring option"
  userMessage :: "jstring option"
  characterId :: "jstring option"
  characterName :: "jstring option"
  personaType :: "jstring option"
  chatbotInstructions :: "jstring option"
  characterTags :: tags
  storyTags :: tags
  toneTags :: tags
  catalystTags :: tags
  chatHistory :: "jsval list option"
  previousChapter :: "jstring option"
  text' :: "jstring option"
  persona :: "jstring option"
  name :: "jstring option"
  type :: "jstring option"

text \<open>An optional string inside a template literal: \<^verbatim>\<open>undefined\<close> prints as its name.\<close>

definition template :: "jstring option \<Rightarrow> jstring" where
  "template x = (case x of None \<Rightarrow> asc ''undefined'' | Some s \<Rightarrow> s)"

text \<open>An optional string as a value.\<close>

definition opt_str :: "jstring option \<Rightarrow> jsval" where
  "opt_str x = (case x of None \<Rightarrow> JUndefined | Some s \<Rightarrow> JStr s)"

text \<open>\<^verbatim>\<open>if (x)\<close> on an optional string.\<close>

definition truthy :: "jstring option \<Rightarrow> bool" where
  "truthy x = (case x of None \<Rightarrow> False | Some s \<Rightarrow> s \<noteq> [])"

text \<open>\<^verbatim>\<open>xs.join(sep)\<close> on an array of strings.\<close>

fun join :: "jstring \<Rightarrow> jstring list \<Rightarrow> jstring" where
  "join sep [] = []"
| "join sep [x] = x"
| "join sep (x # y # ys) = x @ sep @ join sep (y # ys)"

text \<open>\<^verbatim>\<open>xs.slice(-n)\<close>: the last \<open>n\<close> elements, or all of them when there are fewer.\<close>

definition slice_last :: "nat \<Rightarrow> 'a list \<Rightarrow> 'a list" where
  "slice_last n xs = drop (length xs - n) xs"

text \<open>
  \<^verbatim>\<open>Promise.all\<close> over fetchers that were all started: the results, or the rejection.
\<close>

definition all2 :: "js_error + 'a \<Rightarrow> js_error + 'b \<Rightarrow> js_error + 'a \<times> 'b" where
  "all2 a b =
     (case a of Inl e \<Rightarrow> Inl e | Inr x \<Rightarrow> (case b of Inl e \<Rightarrow> Inl e | Inr y \<Rightarrow> Inr (x, y)))"

definition all4 ::
  "js_error + 'a \<Rightarrow> js_error + 'b \<Rightarrow> js_error + 'c \<Rightarrow> js_error + 'd
     \<Rightarrow> js_error + 'a \<times> 'b \<times> 'c \<times> 'd" where
  "all4 a b c d = all2 a (all2 b (all2 c d))"

type_synonym outcome = "(js_error + jsval) \<times> request list"

section \<open>Handlers of the generation actions\<close>

definition handleUnhinge :: "env \<Rightarrow> body \<Rightarrow> request list \<Rightarrow> outcome" where
  "handleUnhinge env b sent =
     (if blank (chapterContent b) then (Inl (Error (asc ''No content to unhinge'')), sent)
      else callAI env
             [chat_msg ''system'' (JStr unhinge_system),
              chat_msg ''user'' (JStr (unhinge_user @ the (chapterContent b)))]
             (9 / 10) 3000 sent)"

text \<open>
  The two sections that \<^verbatim>\<open>unleash\<close> and \<^verbatim>\<open>invoke\<close> append to their system prompt,
  each only when its context is not empty.
\<close>

definition context_sections :: "jstring \<Rightarrow> jstring option \<Rightarrow> jstring" where
  "context_sections characterContext catalystIntel =
     (if characterContext \<noteq> [] then character_context_heading @ characterContext else [])
     @ (if truthy catalystIntel then narrative_catalyst_heading @ the catalystIntel else [])"

definition handleUnleash :: "env \<Rightarrow> body \<Rightarrow> request list \<Rightarrow> outcome" where
  "handleUnleash env b sent =
     (if blank (chapterContent b) then (Inl (Error (asc ''No content to continue from'')), sent)
      else
        (case getCharacterContext env (characterTags b) sent of (r1, sent1) \<Rightarrow>
         (case getCatalystIntel env (catalystTags b) sent1 of (r2, sent2) \<Rightarrow>
          (case all2 r1 r2 of
             Inl e \<Rightarrow> (Inl e, sent2)
           | Inr (characterContext, catalystIntel) \<Rightarrow>
               callAI env
                 [chat_msg ''system''
                    (JStr (unleash_system @ context_sections characterContext catalystIntel)),
                  chat_msg ''user'' (JStr (unleash_user @ the (chapterContent b)))]
                 (85 / 100) 2000 sent2))))"

definition handleNoMercy :: "env \<Rightarrow> body \<Rightarrow> request list \<Rightarrow> outcome" where
  "handleNoMercy env b sent =
     (if blank (selectedText b) then (Inl (Error (asc ''No text selected for rewrite'')), sent)
      else callAI env
             [chat_msg ''system'' (JStr noMercy_system),
              chat_msg ''user'' (JStr (noMercy_user @ the (selectedText b)))]
             (9 / 10) 1500 sent)"

definition handleInvoke :: "env \<Rightarrow> body \<Rightarrow> request list \<Rightarrow> outcome" where
  "handleInvoke env b sent =
     (case getCharacterContext env (characterTags b) sent of (r1, sent1) \<Rightarrow>
      (case getCatalystIntel env (catalystTags b) sent1 of (r2, sent2) \<Rightarrow>
       (case all2 r1 r2 of
          Inl e \<Rightarrow> (Inl e, sent2)
        | Inr (characterContext, catalystIntel) \<Rightarrow>
            callAI env
              [chat_msg ''system''
                 (JStr (invoke_system_1 @ template (contextBefore b)
                        @ invoke_system_2 @ template (contextAfter b)
                        @ invoke_system_3 @ template (userPrompt b)
                        @ invoke_system_4
                        @ context_sections characterContext catalystIntel)),
               chat_msg ''user'' (opt_str (userPrompt b))]
              (85 / 100) 800 sent2)))"

definition handleIntensify :: "env \<Rightarrow> body \<Rightarrow> request list \<Rightarrow> outcome" where
  "handleIntensify env b sent =
     (if blank (selectedText b) then (Inl (Error (asc ''No text selected to intensify'')), sent)
      else callAI env
             [chat_msg ''system'' (JStr intensify_system),
              chat_msg ''user'' (JStr (intensify_user @ the (selectedText b)))]
             (8 / 10) 1500 sent)"

text \<open>
  \<^verbatim>\<open>t?.length > 0 ? `${label}${t.join(', ')}` : ''\<close>. A tag field that is a non-empty
  string has a length but no \<^verbatim>\<open>join\<close>, so the call throws.
\<close>

definition tags_line :: "string \<Rightarrow> string \<Rightarrow> tags \<Rightarrow> js_error + jstring" where
  "tags_line var label t =
     (if tags_length t > 0 then
        (case t of
           TagList xs \<Rightarrow> Inr (asc label @ join (asc '', '') xs)
         | _ \<Rightarrow> Inl (TypeError (asc var @ asc ''.join is not a function'')))
      else Inr [])"

text \<open>\<^verbatim>\<open>`[${ch.title}]\n${ch.content}\n\n`\<close>\<close>

definition chapter_block :: "related_chapter \<Rightarrow> jstring" where
  "chapter_block ch = asc ''['' @ title ch @ asc '']\<newline>'' @ content ch @ asc ''\<newline>\<newline>''"

text \<open>The system prompt of \<^verbatim>\<open>handleCharacterChat\<close>, in the order the handler builds it.\<close>

definition chat_system_prompt ::
  "body \<Rightarrow> jstring \<Rightarrow> related_chapter list \<Rightarrow> jstring option \<Rightarrow> js_error + jstring" where
  "chat_system_prompt b characterContext relatedChapters catalystIntel =
     (case tags_line ''characterTags'' ''Your character traits: '' (characterTags b) of
        Inl e \<Rightarrow> Inl e
      | Inr characterTraits \<Rightarrow>
     (case tags_line ''storyTags'' ''Story tags: '' (storyTags b) of
        Inl e \<Rightarrow> Inl e
      | Inr storyContext \<Rightarrow>
     (case tags_line ''toneTags'' ''Your tone: '' (toneTags b) of
        Inl e \<Rightarrow> Inl e
      | Inr toneContext \<Rightarrow>
     (let personalityContext = or_else (chatbotInstructions b) characterContext;
          systemPrompt =
            (if personaType b = Some (asc ''author-mode'') then
               asc ''You are '' @ template (characterName b) @ chat_author_mode @ personalityContext
             else
               asc ''You are '' @ template (characterName b) @ chat_system_intro
               @ (if personalityContext \<noteq> [] then
                    asc ''YOUR CORE PERSONALITY:\<newline>'' @ personalityContext @ asc ''\<newline>\<newline>''
                  else [])
               @ characterTraits @ asc ''\<newline>'' @ storyContext @ asc ''\<newline>'' @ toneContext)
      in Inr (systemPrompt
              @ (if truthy catalystIntel then narrative_catalyst_heading @ the catalystIntel
                 else [])
              @ (if length relatedChapters > 0 then
                   related_chapters_chat_heading @ concat (map chapter_block relatedChapters)
                 else []))))))"

definition handleCharacterChat :: "env \<Rightarrow> body \<Rightarrow> request list \<Rightarrow> outcome" where
  "handleCharacterChat env b sent =
     (if blank (userMessage b) then (Inl (Error (asc ''No message provided'')), sent)
      else
        (case getCharacterContext env (characterTags b) sent of (r1, sent1) \<Rightarrow>
         (case getChatHistory env (characterTags b) sent1 of (r2, sent2) \<Rightarrow>
          (case getRelatedChapters env (storyTags b) sent2 of (r3, sent3) \<Rightarrow>
           (case getCatalystIntel env (characterTags b) sent3 of (r4, sent4) \<Rightarrow>
            (case all4 r1 r2 r3 r4 of
               Inl e \<Rightarrow> (Inl e, sent4)
             | Inr (characterContext, chatHistoryContext, relatedChapters, catalystIntel) \<Rightarrow>
                 (case chat_system_prompt b characterContext relatedChapters catalystIntel of
                    Inl e \<Rightarrow> (Inl e, sent4)
                  | Inr systemPrompt \<Rightarrow>
                      callAI env
                        ([chat_msg ''system'' (JStr systemPrompt)]
                         @ slice_last 70 (case chatHistory b of None \<Rightarrow> [] | Some h \<Rightarrow> h)
                         @ [chat_msg ''user'' (JStr (the (userMessage b)))])
                        (85 / 100) 500 sent4)))))))"

text \<open>A number inside a template literal, for the session index.\<close>

fun show_nat :: "nat \<Rightarrow> jstring" where
  "show_nat n =
     (if n < 10 then [of_nat (48 + n)] else show_nat (n div 10) @ [of_nat (48 + n mod 10)])"

declare show_nat.simps [simp del]

text \<open>
  \<^verbatim>\<open>`${msg.type === 'user' ? 'AUTHOR' : 'YOU'}: ${msg.text}\n`\<close> and the heading and last
  five messages of one stored session.
\<close>

definition entry_line :: "chat_entry \<Rightarrow> jstring" where
  "entry_line msg =
     (if entry_type msg = Some (asc ''user'') then asc ''AUTHOR'' else asc ''YOU'')
     @ asc '': '' @ template (entry_text msg) @ asc ''\<newline>''"

definition session_block :: "nat \<times> session \<Rightarrow> jstring" where
  "session_block p =
     (case p of (idx, s) \<Rightarrow>
        asc ''\<newline>[Session '' @ show_nat (idx + 1) @ asc '']\<newline>''
        @ concat (map entry_line (slice_last 5 (messages s))))"

definition devil_system_prompt ::
  "body \<Rightarrow> jstring \<Rightarrow> session list \<Rightarrow> related_chapter list \<Rightarrow> jstring option
     \<Rightarrow> js_error + jstring" where
  "devil_system_prompt b characterContext chatHist relatedChapters catalystIntel =
     (case tags_line ''characterTags'' ''Character traits: '' (characterTags b) of
        Inl e \<Rightarrow> Inl e
      | Inr characterTraits \<Rightarrow>
     (case tags_line ''storyTags'' ''Story: '' (storyTags b) of
        Inl e \<Rightarrow> Inl e
      | Inr storyContext \<Rightarrow>
     (case tags_line ''toneTags'' ''Tone: '' (toneTags b) of
        Inl e \<Rightarrow> Inl e
      | Inr toneContext \<Rightarrow>
         Inr (asc ''You are '' @ or_else (characterName b) (asc ''the antagonist'')
              @ devil_system_intro
              @ characterTraits @ asc ''\<newline>'' @ storyContext @ asc ''\<newline>'' @ toneContext
              @ (if characterContext \<noteq> [] then core_personality_heading @ characterContext
                 else [])
              @ (if truthy catalystIntel then narrative_catalyst_heading @ the catalystIntel
                 else [])
              @ (if length relatedChapters > 0 then
                   related_chapters_devil_heading @ concat (map chapter_block relatedChapters)
                 else [])
              @ (if length chatHist > 0 then
                   conversations_heading @ concat (map session_block (enumerate 0 chatHist))
                 else [])
              @ devil_system_closing))))"

definition handleDevilPOV :: "env \<Rightarrow> body \<Rightarrow> request list \<Rightarrow> outcome" where
  "handleDevilPOV env b sent =
     (if \<not> truthy (previousChapter b) then (Inl (Error (asc ''No chapter provided'')), sent)
      else
        (case getCharacterContext env (characterTags b) sent of (r1, sent1) \<Rightarrow>
         (case getChatHistory env (characterTags b) sent1 of (r2, sent2) \<Rightarrow>
          (case getRelatedChapters env (storyTags b) sent2 of (r3, sent3) \<Rightarrow>
           (case getCatalystIntel env (catalystTags b) sent3 of (r4, sent4) \<Rightarrow>
            (case all4 r1 r2 r3 r4 of
               Inl e \<Rightarrow> (Inl e, sent4)
             | Inr (characterContext, chatHist, relatedChapters, catalystIntel) \<Rightarrow>
                 (case devil_system_prompt b characterContext chatHist relatedChapters
                         catalystIntel of
                    Inl e \<Rightarrow> (Inl e, sent4)
                  | Inr systemPrompt \<Rightarrow>
                      callAI env
                        [chat_msg ''system'' (JStr systemPrompt),
                         chat_msg ''user''
                           (JStr (devil_user_1 @ the (previousChapter b) @ devil_user_2))]
                        (9 / 10) 2500 sent4)))))))"

section \<open>Manuscript analysis tools\<close>

text \<open>
  The single-model caller. Its \<^verbatim>\<open>catch\<close> logs and throws the error again, so every
  exception of the \<^verbatim>\<open>try\<close> block propagates.
\<close>

definition callClaudeForAnalysis ::
  "env \<Rightarrow> jsval list \<Rightarrow> nat \<Rightarrow> request list \<Rightarrow> outcome" where
  "callClaudeForAnalysis env msgs maxTokens sent =
     (if no_key (OPENROUTER_API_KEY env) then (Inl (Error (asc ''No API key configured'')), sent)
      else
        (let req = ChatCompletion (the (OPENROUTER_API_KEY env))
                     (asc ''Devil Muse - Manuscript Analysis'') (asc ''openai/gpt-3.5-turbo'')
                     msgs (3 / 10) maxTokens in
         (case fetch_openrouter env sent req of
            Rejected e \<Rightarrow> Inl e
          | Responded resp \<Rightarrow>
              if \<not> ok resp then
                (case resp_text resp of
                   Inl e \<Rightarrow> Inl e
                 | Inr errorText \<Rightarrow> Inl (Error (asc ''Claude API failed: '' @ errorText)))
              else
                (case resp_json resp of Inl e \<Rightarrow> Inl e | Inr d \<Rightarrow> completion_content d),
          sent @ [req])))"

text \<open>
  \<^verbatim>\<open>s.replace(/```json|```/g, '')\<close>: scanning from the left, every fence, with its
  \<^verbatim>\<open>json\<close> tag when it has one, is removed.
\<close>

function strip_fences :: "jstring \<Rightarrow> jstring" where
  "strip_fences s =
     (if s = [] then []
      else if take 7 s = asc ''```json'' then strip_fences (drop 7 s)
      else if take 3 s = asc ''```'' then strip_fences (drop 3 s)
      else hd s # strip_fences (tl s))"
  by pat_completeness auto
termination
  by (relation "measure length") (auto simp: asc_def)

declare strip_fences.simps [simp del]

text \<open>
  The \<^verbatim>\<open>try\<close>/\<^verbatim>\<open>catch\<close> that follows the call in every analysis handler: strip the
  fences, trim, parse; any exception (also \<^verbatim>\<open>replace\<close> missing on a completion that is
  not a string) becomes the handler's own parse error.
\<close>

definition parse_markers :: "env \<Rightarrow> string \<Rightarrow> jsval \<Rightarrow> js_error + jsval" where
  "parse_markers env failure response =
     (case response of
        JStr s \<Rightarrow>
          (case JSON_parse env (trim (strip_fences s)) of
             Inl e \<Rightarrow> Inl (Error (asc failure))
           | Inr v \<Rightarrow> Inr v)
      | _ \<Rightarrow> Inl (Error (asc failure)))"

definition analyse :: "env \<Rightarrow> jsval list \<Rightarrow> nat \<Rightarrow> string \<Rightarrow> request list \<Rightarrow> outcome" where
  "analyse env msgs maxTokens failure sent =
     (case callClaudeForAnalysis env msgs maxTokens sent of
        (Inl e, sent') \<Rightarrow> (Inl e, sent')
      | (Inr response, sent') \<Rightarrow> (parse_markers env failure response, sent'))"

definition handleOveruseScanner :: "env \<Rightarrow> body \<Rightarrow> request list \<Rightarrow> outcome" where
  "handleOveruseScanner env b sent =
     (if blank (text' b) then (Inl (Error (asc ''No text provided for analysis'')), sent)
      else analyse env [chat_msg ''user'' (JStr (overuse_prompt @ the (text' b)))] 3000
             ''Failed to parse analysis response'' sent)"

definition handlePacingAnalyzer :: "env \<Rightarrow> body \<Rightarrow> request list \<Rightarrow> outcome" where
  "handlePacingAnalyzer env b sent =
     (if blank (text' b) then (Inl (Error (asc ''No text provided for analysis'')), sent)
      else analyse env [chat_msg ''user'' (JStr (pacing_prompt @ the (text' b)))] 3000
             ''Failed to parse pacing analysis'' sent)"

definition handleSentenceMechanics :: "env \<Rightarrow> body \<Rightarrow> request list \<Rightarrow> outcome" where
  "handleSentenceMechanics env b sent =
     (if blank (text' b) then (Inl (Error (asc ''No text provided for analysis'')), sent)
      else analyse env [chat_msg ''user'' (JStr (mechanics_prompt @ the (text' b)))] 2500
             ''Failed to parse mechanics analysis'' sent)"

definition handleDialogueCritic :: "env \<Rightarrow> body \<Rightarrow> request list \<Rightarrow> outcome" where
  "handleDialogueCritic env b sent =
     (if blank (text' b) then (Inl (Error (asc ''No text provided for analysis'')), sent)
      else analyse env [chat_msg ''user'' (JStr (dialogue_prompt @ the (text' b)))] 2500
             ''Failed to parse dialogue analysis'' sent)"

text \<open>
  The persona table is an object literal, so a lookup also finds the members that every
  object inherits from \<^verbatim>\<open>Object.prototype\<close>; they are functions or objects, hence truthy,
  and \<open>native_text\<close> is how the engine prints them inside the template literal. The lookup
  key is the persona converted to a string.
\<close>

definition personas :: "(jstring \<times> jstring) list" where
  "personas =
     [(asc ''cold_editor'', cold_editor),
      (asc ''market_hawk'', market_hawk),
      (asc ''literary_judge'', literary_judge),
      (asc ''dark_romance_gatekeeper'', dark_romance_gatekeeper)]"

definition Object_prototype_names :: "jstring list" where
  "Object_prototype_names =
     map asc [''constructor'', ''__defineGetter__'', ''__defineSetter__'', ''hasOwnProperty'',
              ''__lookupGetter__'', ''__lookupSetter__'', ''isPrototypeOf'',
              ''propertyIsEnumerable'', ''toString'', ''valueOf'', ''__proto__'',
              ''toLocaleString'']"

text \<open>\<^verbatim>\<open>personas[persona] || personas.cold_editor\<close>, as it prints in the prompt.\<close>

definition selectedPersona :: "env \<Rightarrow> jstring option \<Rightarrow> jstring" where
  "selectedPersona env p =
     (case map_of personas (template p) of
        Some t \<Rightarrow> if t = [] then cold_editor else t
      | None \<Rightarrow>
          if template p \<in> set Object_prototype_names then native_text env (template p)
          else cold_editor)"

text \<open>\<^verbatim>\<open>s.replace('_', ' ')\<close>: only the first occurrence is replaced.\<close>

fun replace_first :: "16 word \<Rightarrow> 16 word \<Rightarrow> jstring \<Rightarrow> jstring" where
  "replace_first a b [] = []"
| "replace_first a b (c # cs) = (if c = a then b # cs else c # replace_first a b cs)"

text \<open>
  \<^verbatim>\<open>persona.replace('_', ' ').toUpperCase()\<close>, the marker type written into the prompt
  from the persona of the request; it throws when the request has no persona.
\<close>

definition persona_label :: "env \<Rightarrow> jstring option \<Rightarrow> js_error + jstring" where
  "persona_label env p =
     (case p of
        None \<Rightarrow> Inl (cannot_read ''undefined'' (asc ''replace''))
      | Some s \<Rightarrow> Inr (toUpperCase env (replace_first 0x5F 0x20 s)))"

definition critic_prompt :: "env \<Rightarrow> body \<Rightarrow> js_error + jstring" where
  "critic_prompt env b =
     (case persona_label env (persona b) of
        Inl e \<Rightarrow> Inl e
      | Inr label \<Rightarrow>
          Inr (selectedPersona env (persona b) @ critic_prompt_1 @ label @ critic_prompt_2
               @ the (text' b)))"

definition handleAICritic :: "env \<Rightarrow> body \<Rightarrow> request list \<Rightarrow> outcome" where
  "handleAICritic env b sent =
     (if blank (text' b) then (Inl (Error (asc ''No text provided for critique'')), sent)
      else
        (case critic_prompt env b of
           Inl e \<Rightarrow> (Inl e, sent)
         | Inr prompt \<Rightarrow>
             analyse env [chat_msg ''user'' (JStr prompt)] 3500
               ''Failed to parse critic response'' sent))"

definition handleStructuralCheck :: "env \<Rightarrow> body \<Rightarrow> request list \<Rightarrow> outcome" where
  "handleStructuralCheck env b sent =
     (if blank (text' b) then (Inl (Error (asc ''No text provided for analysis'')), sent)
      else analyse env [chat_msg ''user'' (JStr (structural_prompt @ the (text' b)))] 2500
             ''Failed to parse structural analysis'' sent)"

section \<open>Tag janitor\<close>

text \<open>
  After its two checks the handler builds the prompt, and both branches of that template
  read \<^verbatim>\<open>existingTags\<close>, an identifier declared nowhere (not a parameter, not a global):
  evaluating it throws, outside the \<^verbatim>\<open>try\<close> block, so the fetch that follows in the
  source is never reached.
\<close>

definition handleTagGeneration :: "env \<Rightarrow> body \<Rightarrow> request list \<Rightarrow> outcome" where
  "handleTagGeneration env b sent =
     (if blank (name b) then (Inl (Error (asc ''No name provided for tag generation'')), sent)
      else if no_key (OPENROUTER_API_KEY env) then
        (Inl (Error (asc ''No API key configured'')), sent)
      else (Inl (ReferenceError (asc ''existingTags is not defined'')), sent))"

section \<open>The unified endpoint\<close>

text \<open>
  The \<^verbatim>\<open>switch\<close> on the action. Its \<^verbatim>\<open>default\<close> label stands in the middle, but a
  \<^verbatim>\<open>switch\<close> first compares with every \<^verbatim>\<open>case\<close> label, so the analysis actions after
  it are reached, and only an action that matches no label runs the default handler.
\<close>

definition dispatch :: "env \<Rightarrow> jstring \<Rightarrow> body \<Rightarrow> request list \<Rightarrow> outcome" where
  "dispatch env act b sent =
     (if act = asc ''unhinge'' then handleUnhinge env b sent
      else if act = asc ''unleash'' then handleUnleash env b sent
      else if act = asc ''noMercy'' then handleNoMercy env b sent
      else if act = asc ''invoke'' then handleInvoke env b sent
      else if act = asc ''intensify'' then handleIntensify env b sent
      else if act = asc ''characterChat'' then handleCharacterChat env b sent
      else if act = asc ''devilPOV'' then handleDevilPOV env b sent
      else if act = asc ''overuse_scanner'' then handleOveruseScanner env b sent
      else if act = asc ''pacing_analyzer'' then handlePacingAnalyzer env b sent
      else if act = asc ''sentence_mechanics'' then handleSentenceMechanics env b sent
      else if act = asc ''dialogue_critic'' then handleDialogueCritic env b sent
      else if act = asc ''ai_critic'' then handleAICritic env b sent
      else if act = asc ''structural_check'' then handleStructuralCheck env b sent
      else if act = asc ''tag_generation'' then handleTagGeneration env b sent
      else handleDevilPOV env b sent)"

text \<open>
  A response written to the client: \<^verbatim>\<open>res.json\<close> with status 200, or
  \<^verbatim>\<open>res.status(500).json\<close>.
\<close>

datatype reply_body =
    Success (result: jsval) (charsGenerated: jsval) (processingTime: int)
  | Failure (error: jstring) (details: jstring)

record reply =
  status :: nat
  payload :: reply_body

text \<open>
  What one request leaves behind: the responses written, in order; the error the route
  callback ends with, if any; and the requests sent to the outside.
\<close>

record exchange =
  replies :: "reply list"
  rejection :: "js_error option"
  requests :: "request list"

text \<open>
  The \<^verbatim>\<open>try\<close> block up to the arguments of \<^verbatim>\<open>res.json\<close>: the handler's result and its
  \<^verbatim>\<open>length\<close>, which throws on a result that is \<^verbatim>\<open>undefined\<close> or \<^verbatim>\<open>null\<close>.
\<close>

definition devil_pov_try ::
  "env \<Rightarrow> body \<Rightarrow> request list \<Rightarrow> (js_error + jsval \<times> jsval) \<times> request list" where
  "devil_pov_try env b sent =
     (case dispatch env (case action b of None \<Rightarrow> asc ''devilPOV'' | Some a \<Rightarrow> a) b sent of
        (Inl e, sent') \<Rightarrow> (Inl e, sent')
      | (Inr res, sent') \<Rightarrow>
          (case get_prop res (asc ''length'') of
             Inl e \<Rightarrow> (Inl e, sent')
           | Inr n \<Rightarrow> (Inr (res, n), sent')))"

text \<open>
  The route \<^verbatim>\<open>POST /devil-pov\<close>. In the \<^verbatim>\<open>catch\<close> block the failure response is written
  first. The statement after it builds the argument of a second \<^verbatim>\<open>res.json\<close> from
  \<^verbatim>\<open>result\<close> and \<^verbatim>\<open>startTime\<close>, which are declared inside the \<^verbatim>\<open>try\<close> block and not
  visible in the \<^verbatim>\<open>catch\<close> block: reading \<^verbatim>\<open>result\<close> throws before \<^verbatim>\<open>res.json\<close> is
  called, and the callback ends with that error.
\<close>

definition devil_pov :: "env \<Rightarrow> body \<Rightarrow> request list \<Rightarrow> exchange" where
  "devil_pov env b sent =
     (let startTime = Date_now env sent in
      case devil_pov_try env b sent of
        (Inr (res, n), sent') \<Rightarrow>
          \<lparr>replies = [\<lparr>status = 200,
                       payload = Success res n (Date_now env sent' - startTime)\<rparr>],
           rejection = None,
           requests = sent'\<rparr>
      | (Inl err, sent') \<Rightarrow>
          \<lparr>replies = [\<lparr>status = 500,
                       payload = Failure (or_else (action b) (asc ''Action'') @ asc '' failed'')
                                   (message err)\<rparr>],
           rejection = Some (ReferenceError (asc ''result is not defined'')),
           requests = sent'\<rparr>)"

section \<open>Concrete environments and requests\<close>

text \<open>
  Small worlds on which the statements below are evaluated. \<open>completion s\<close> is the body
  of a provider response whose first choice carries the text \<open>s\<close>.
\<close>

definition completion :: "jstring \<Rightarrow> jsval" where
  "completion s =
     JObj [(asc ''choices'',
            JArr [JObj [(asc ''message'',
                         JObj [(asc ''role'', JStr (asc ''assistant'')),
                               (asc ''content'', JStr s)])]])]"

definition ascii_upper :: "jstring \<Rightarrow> jstring" where
  "ascii_upper s = map (\<lambda>c. if 0x61 \<le> c \<and> c \<le> 0x7A then c - 0x20 else c) s"

text \<open>
  A world with the given credential, a provider that answers every request with the given
  response, and a CMS that answers every query with the given records.
\<close>

definition world ::
  "jstring option \<Rightarrow> (request \<Rightarrow> jsval fetch_result) \<Rightarrow> cms_item list \<Rightarrow> env" where
  "world key llm records =
     \<lparr>OPENROUTER_API_KEY = key,
      fetch_openrouter = (\<lambda>sent. llm),
      fetch_wix = (\<lambda>sent req.
        Responded \<lparr>ok = True, resp_text = Inr [],
                   resp_json = Inr (DocObject (Some records))\<rparr>),
      Date_now = (\<lambda>sent. int (length sent)),
      JSON_parse = (\<lambda>s. Inl (SyntaxError (asc ''Unexpected token''))),
      JSON_parse_chatBox = (\<lambda>s. Inl (SyntaxError (asc ''Unexpected token''))),
      JSON_stringify = (\<lambda>d. asc ''{}''),
      toUpperCase = ascii_upper,
      native_text = (\<lambda>k. asc ''function () { [native code] }'')\<rparr>"

definition answers :: "jstring \<Rightarrow> request \<Rightarrow> jsval fetch_result" where
  "answers s req = Responded \<lparr>ok = True, resp_text = Inr [], resp_json = Inr (completion s)\<rparr>"

text \<open>
  A provider whose primary model answers with status 200 and a body that is not JSON,
  and whose other models answer properly.
\<close>

definition garbled_primary :: "request \<Rightarrow> jsval fetch_result" where
  "garbled_primary req =
     (if model req = PRIMARY_MODEL then
        Responded \<lparr>ok = True, resp_text = Inr (asc ''<html>''),
                   resp_json = Inl (SyntaxError (asc ''Unexpected token <''))\<rparr>
      else answers (asc ''from the backup'') req)"

definition empty_body :: body where
  "empty_body =
     \<lparr>action = None, chapterContent = None, selectedText = None, userPrompt = None,
      contextBefore = None, contextAfter = None, userMessage = None, characterId = None,
      characterName = None, personaType = None, chatbotInstructions = None,
      characterTags = NoTags, storyTags = NoTags, toneTags = NoTags, catalystTags = NoTags,
      chatHistory = None, previousChapter = None, text' = None, persona = None,
      name = None, type = None\<rparr>"

definition sky_request :: body where
  "sky_request =
     empty_body\<lparr>action := Some (asc ''noMercy''),
                 selectedText := Some (asc ''The sky was blue.'')\<rparr>"

text \<open>A stored chapter whose body has 1600 characters.\<close>

definition long_chapter :: cms_item where
  "long_chapter =
     \<lparr>data = Some \<lparr>data_chatbot = None, data_chatBox = None,
                    data_title = Some (asc ''Chapter One''),
                    data_chapterContent = Some (replicate 1600 0x61)\<rparr>\<rparr>"

text \<open>A critique request with the given persona.\<close>

definition critic_request :: "jstring option \<Rightarrow> body" where
  "critic_request p =
     empty_body\<lparr>action := Some (asc ''ai_critic''),
                 text' := Some (asc ''Once upon a time.''),
                 persona := p\<rparr>"

text \<open>
  A characterChat request whose session history has 80 messages, and the same request with
  a character tag and a catalyst tag.
\<close>

definition long_history :: "jsval list" where
  "long_history = map (\<lambda>i. chat_msg ''user'' (JNum (of_nat i))) [0..<80]"

definition chat_request :: body where
  "chat_request =
     empty_body\<lparr>action := Some (asc ''characterChat''),
                 userMessage := Some (asc ''Who are you?''),
                 chatHistory := Some long_history\<rparr>"

definition tagged_chat_request :: body where
  "tagged_chat_request =
     chat_request\<lparr>characterTags := TagList [asc ''@Lilith''],
                   catalystTags := TagList [asc ''@Storm'']\<rparr>"

text \<open>The CMS queries of a characterChat request, in the order they are sent.\<close>

definition chat_queries :: "body \<Rightarrow> request list" where
  "chat_queries b =
     (if falsy_tags (characterTags b) \<or> tags_length (characterTags b) = 0 then []
      else [WixQuery (asc ''Characters'')
              (FilterEq (asc ''charactertags'') (first_tag (characterTags b))) 1])
     @ (if falsy_tags (characterTags b) then []
        else [WixQuery (asc ''ChatWithCharacters'')
                (FilterEq (asc ''charactertags'') (first_tag (characterTags b))) 5])
     @ (if falsy_tags (storyTags b) \<or> tags_length (storyTags b) = 0 then []
        else [WixQuery (asc ''BackupChapters'')
                (FilterEq (asc ''storyTag'') (first_tag (storyTags b))) 3])
     @ (if falsy_tags (characterTags b) \<or> tags_length (characterTags b) = 0 then []
        else [WixQuery (asc ''Catalyst'')
                (FilterContains (asc ''title'') (first_tag (characterTags b))) 1])"

section \<open>Properties: strings\<close>

lemma of_char_bound: "(of_char c :: nat) < 65536"
proof -
  have "(of_char c :: nat) mod 256 = of_char c" by simp
  then have "(of_char c :: nat) < 256" by (metis mod_less_divisor zero_less_numeral)
  then show ?thesis by linarith
qed

lemma code_unit_inj: "(of_nat (of_char c) :: 16 word) = of_nat (of_char d) \<longleftrightarrow> c = d"
proof
  assume h: "(of_nat (of_char c) :: 16 word) = of_nat (of_char d)"
  then have "unat (of_nat (of_char c) :: 16 word) = unat (of_nat (of_char d) :: 16 word)"
    by simp
  then have "(of_char c :: nat) = of_char d"
    using of_char_bound [of c] of_char_bound [of d] by (simp add: unat_of_nat)
  then show "c = d" by simp
next
  assume "c = d" then show "(of_nat (of_char c) :: 16 word) = of_nat (of_char d)" by simp
qed

lemma asc_eq_iff [simp]: "asc s = asc t \<longleftrightarrow> s = t"
proof (induction s arbitrary: t)
  case Nil then show ?case by (auto simp: asc_def)
next
  case (Cons a s)
  show ?case
  proof (cases t)
    case Nil then show ?thesis by (simp add: asc_def)
  next
    case (Cons b u)
    have "asc (a # s) = asc (b # u) \<longleftrightarrow>
       (of_nat (of_char a) :: 16 word) = of_nat (of_char b) \<and> asc s = asc u"
      by (simp add: asc_def)
    then show ?thesis using Cons.IH [of u] Cons by (simp only: code_unit_inj list.inject)
  qed
qed

lemma asc_Nil_iff [simp]: "asc s = [] \<longleftrightarrow> s = []" "[] = asc s \<longleftrightarrow> s = []"
  by (auto simp: asc_def)

lemma length_asc [simp]: "length (asc s) = length s"
  by (simp add: asc_def)

section \<open>Properties: the model-fallback caller\<close>

lemma callAI_try_candidate:
  "callAI_try r = Inr (Some c) \<longleftrightarrow> candidate_content r = Some c"
  by (auto simp: callAI_try_def candidate_content_def split: fetch_result.splits sum.splits)

lemma callAI_loop_step:
  "callAI_loop env k msgs t n (m # ms) sent =
     (case candidate_content (fetch_openrouter env sent (ChatCompletion k (asc ''Devil Muse'') m msgs t n)) of
        Some c \<Rightarrow> (Inr c, sent @ [ChatCompletion k (asc ''Devil Muse'') m msgs t n])
      | None \<Rightarrow> callAI_loop env k msgs t n ms (sent @ [ChatCompletion k (asc ''Devil Muse'') m msgs t n]))"
  by (auto simp: Let_def callAI_try_def candidate_content_def split: fetch_result.splits sum.splits option.splits)

lemma models_distinct:
  "PRIMARY_MODEL \<noteq> BACKUP_MODEL" "BACKUP_MODEL \<noteq> PRIMARY_MODEL"
  "PRIMARY_MODEL \<noteq> TERTIARY_MODEL" "TERTIARY_MODEL \<noteq> PRIMARY_MODEL"
  by (simp_all add: PRIMARY_MODEL_def BACKUP_MODEL_def TERTIARY_MODEL_def)

lemma completion_content_completion: "completion_content (completion s) = Inr (JStr s)"
  by (simp add: completion_content_def completion_def asc_def)

lemma world_sel [simp]:
  "OPENROUTER_API_KEY (world k l r) = k"
  "fetch_openrouter (world k l r) sent = l"
  "fetch_wix (world k l r) sent req =
     Responded \<lparr>ok = True, resp_text = Inr [], resp_json = Inr (DocObject (Some r))\<rparr>"
  "Date_now (world k l r) sent = int (length sent)"
  "toUpperCase (world k l r) = ascii_upper"
  "JSON_stringify (world k l r) d = asc ''{}''"
  by (simp_all add: world_def)

lemma callAI_answers:
  "k \<noteq> [] \<Longrightarrow> callAI (world (Some k) (answers s) records) msgs t n sent =
     (Inr (JStr s), sent @ [ChatCompletion k (asc ''Devil Muse'') PRIMARY_MODEL msgs t n])"
  by (simp add: callAI_def no_key_def answers_def callAI_try_def
        completion_content_completion Let_def)

text \<open>
  C1 (as the code has it). With a credential configured, the caller asks the primary, the
  backup and the tertiary model in this order, one request each. The first candidate that
  answers ok with a body from which the message content can be read has that content
  returned at once, and no later candidate is asked. A candidate whose fetch is rejected,
  whose status is not ok, or whose ok response has a body that does not parse or lacks
  \<^verbatim>\<open>choices[0].message\<close>, is passed over. When all three are passed over the call fails
  with \<^verbatim>\<open>All models failed\<close>.
\<close>

theorem callAI_fallback:
  assumes "\<not> no_key (OPENROUTER_API_KEY env)"
  shows "callAI env msgs t n sent =
     (let k = the (OPENROUTER_API_KEY env);
          r1 = ChatCompletion k (asc ''Devil Muse'') PRIMARY_MODEL msgs t n;
          r2 = ChatCompletion k (asc ''Devil Muse'') BACKUP_MODEL msgs t n;
          r3 = ChatCompletion k (asc ''Devil Muse'') TERTIARY_MODEL msgs t n
      in case candidate_content (fetch_openrouter env sent r1) of
           Some c \<Rightarrow> (Inr c, sent @ [r1])
         | None \<Rightarrow>
        (case candidate_content (fetch_openrouter env (sent @ [r1]) r2) of
           Some c \<Rightarrow> (Inr c, sent @ [r1, r2])
         | None \<Rightarrow>
        (case candidate_content (fetch_openrouter env (sent @ [r1, r2]) r3) of
           Some c \<Rightarrow> (Inr c, sent @ [r1, r2, r3])
         | None \<Rightarrow> (Inl (Error (asc ''All models failed'')), sent @ [r1, r2, r3]))))"
  using assms unfolding callAI_def Let_def
  by (simp del: callAI_loop.simps(2) add: callAI_loop_step split: option.splits)

theorem callAI_fallback_witness:
  "\<not> no_key (OPENROUTER_API_KEY (world (Some (asc ''sk'')) (\<lambda>req. Rejected (TypeError (asc ''fetch failed''))) []))
   \<and> callAI (world (Some (asc ''sk'')) (\<lambda>req. Rejected (TypeError (asc ''fetch failed''))) []) [] (9 / 10) 2500 []
     = (Inl (Error (asc ''All models failed'')),
        [ChatCompletion (asc ''sk'') (asc ''Devil Muse'') PRIMARY_MODEL [] (9 / 10) 2500,
         ChatCompletion (asc ''sk'') (asc ''Devil Muse'') BACKUP_MODEL [] (9 / 10) 2500,
         ChatCompletion (asc ''sk'') (asc ''Devil Muse'') TERTIARY_MODEL [] (9 / 10) 2500])"
proof -
  have k: "\<not> no_key (OPENROUTER_API_KEY (world (Some (asc ''sk'')) (\<lambda>req. Rejected (TypeError (asc ''fetch failed''))) []))"
    by (simp add: no_key_def world_def)
  show ?thesis
    using k callAI_fallback [OF k, of "[]" "9 / 10" 2500 "[]"]
    by (simp add: world_def candidate_content_def Let_def)
qed

text \<open>
  C1 as stated fails: here the primary model returns a success response (status ok) whose
  body is not JSON. No content is returned from it; the backup model is asked next, and
  its completion is the result.
\<close>

theorem callAI_garbled_counterexample:
  "fetch_openrouter (world (Some (asc ''sk'')) garbled_primary []) []
       (ChatCompletion (asc ''sk'') (asc ''Devil Muse'') PRIMARY_MODEL [] (9 / 10) 2500)
     = Responded \<lparr>ok = True, resp_text = Inr (asc ''<html>''),
                   resp_json = Inl (SyntaxError (asc ''Unexpected token <''))\<rparr>
   \<and> callAI (world (Some (asc ''sk'')) garbled_primary []) [] (9 / 10) 2500 []
     = (Inr (JStr (asc ''from the backup'')),
        [ChatCompletion (asc ''sk'') (asc ''Devil Muse'') PRIMARY_MODEL [] (9 / 10) 2500,
         ChatCompletion (asc ''sk'') (asc ''Devil Muse'') BACKUP_MODEL [] (9 / 10) 2500])"
  by (simp add: callAI_def no_key_def world_def garbled_primary_def answers_def callAI_try_def
        completion_content_completion models_distinct Let_def)

section \<open>Properties: the provider credential\<close>

text \<open>
  C2 (as the code has it). Without a provider credential the fallback caller and the
  single-model caller fail with the configuration error, and tag generation fails too,
  all three before any request is sent. Tag generation checks the name first: with a
  blank name its error is the one about the name, otherwise the configuration error.
\<close>

theorem no_credential_fails_before_network:
  assumes "no_key (OPENROUTER_API_KEY env)"
  shows "callAI env msgs t n sent = (Inl (Error (asc ''No API key configured'')), sent)
       \<and> callClaudeForAnalysis env msgs n sent = (Inl (Error (asc ''No API key configured'')), sent)
       \<and> handleTagGeneration env b sent =
           (Inl (Error (if blank (name b) then asc ''No name provided for tag generation''
                        else asc ''No API key configured'')), sent)"
  using assms by (simp add: callAI_def callClaudeForAnalysis_def handleTagGeneration_def)

theorem no_credential_witness:
  "no_key (OPENROUTER_API_KEY (world None (answers (asc ''@Tag'')) []))
   \<and> callAI (world None (answers (asc ''@Tag'')) []) [] (9 / 10) 2500 []
       = (Inl (Error (asc ''No API key configured'')), [])
   \<and> callClaudeForAnalysis (world None (answers (asc ''@Tag'')) []) [] 2500 []
       = (Inl (Error (asc ''No API key configured'')), [])
   \<and> handleTagGeneration (world None (answers (asc ''@Tag'')) [])
         (empty_body\<lparr>name := Some (asc ''Lilith Vale'')\<rparr>) []
       = (Inl (Error (asc ''No API key configured'')), [])"
proof -
  have k: "no_key (OPENROUTER_API_KEY (world None (answers (asc ''@Tag'')) []))"
    by (simp add: no_key_def world_def)
  have nb: "\<not> blank (name (empty_body\<lparr>name := Some (asc ''Lilith Vale'')\<rparr>))"
    by (simp add: blank_def trim_def is_js_space_def asc_def)
  show ?thesis
    using k nb no_credential_fails_before_network [OF k, where msgs = "[]" and t = "9 / 10"
        and n = 2500 and sent = "[]"
        and b = "empty_body\<lparr>name := Some (asc ''Lilith Vale'')\<rparr>"]
    by simp
qed

text \<open>
  C2 as stated fails for tag generation: without a credential and with an empty name the
  error is not the configuration error.
\<close>

theorem tag_generation_blank_name_counterexample:
  "no_key (OPENROUTER_API_KEY (world None (answers (asc ''@Tag'')) []))
   \<and> handleTagGeneration (world None (answers (asc ''@Tag'')) [])
         (empty_body\<lparr>name := Some (asc '''')\<rparr>) []
       = (Inl (Error (asc ''No name provided for tag generation'')), [])
   \<and> Error (asc ''No name provided for tag generation'') \<noteq> Error (asc ''No API key configured'')"
  by (simp add: no_key_def world_def handleTagGeneration_def blank_def)

section \<open>Properties: the CMS adapter and the context fetchers\<close>

text \<open>
  Where the fetchers do return their empty default without a query: all four on an absent
  tag and on the empty string, and all but the chat-history fetcher on the empty list.
\<close>

lemma fetchers_empty_default:
  "falsy_tags t \<or> tags_length t = 0 \<Longrightarrow>
     getCharacterContext env t sent = (Inr [], sent)
     \<and> getRelatedChapters env t sent = (Inr [], sent)
     \<and> getCatalystIntel env t sent = (Inr (Some []), sent)"
  "falsy_tags t \<Longrightarrow> getChatHistory env t sent = (Inr [], sent)"
  by (simp_all add: getCharacterContext_def getRelatedChapters_def getCatalystIntel_def
        getChatHistory_def)

text \<open>
  C3, at the input where the code departs from it. The chat-history fetcher only tests
  whether its argument is falsy, and an empty list is not: it takes the first element of
  the empty list, which is \<^verbatim>\<open>undefined\<close>, and sends a query with that operand. (The other
  three fetchers also test for length zero.)
\<close>

theorem getChatHistory_empty_list_queries:
  "snd (getChatHistory env (TagList []) sent) =
     sent @ [WixQuery (asc ''ChatWithCharacters'') (FilterEq (asc ''charactertags'') None) 5]"
  by (simp add: getChatHistory_def falsy_tags_def first_tag_def queryWixCMS_def Let_def
        split: prod.splits sum.splits)


lemma or_else_None [simp]: "or_else None b = b"
  by (simp add: or_else_def)

text \<open>
  C7. For a non-empty tag argument, the lookup returns one pair per record of the query
  result, in order; the content of each pair is the first 1500 characters of the record's
  stored body, so it has at most 1500 characters, and exactly 1500 when the body is longer.
\<close>

theorem related_chapters_truncated:
  assumes "\<not> (falsy_tags t \<or> tags_length t = 0)"
    and "fst (queryWixCMS env (asc ''BackupChapters'') (FilterEq (asc ''storyTag'') (first_tag t)) 3 sent)
           = Inr res"
  shows "\<exists>chs. fst (getRelatedChapters env t sent) = Inr chs
           \<and> length chs = length (items res)
           \<and> (\<forall>i < length chs.
                 content (chs ! i) = take 1500 (stored_body (items res ! i))
               \<and> length (content (chs ! i)) \<le> 1500
               \<and> (1500 < length (stored_body (items res ! i))
                    \<longrightarrow> length (content (chs ! i)) = 1500))"
proof -
  obtain s' where q: "queryWixCMS env (asc ''BackupChapters'')
        (FilterEq (asc ''storyTag'') (first_tag t)) 3 sent = (Inr res, s')"
    using assms(2) by (cases "queryWixCMS env (asc ''BackupChapters'')
        (FilterEq (asc ''storyTag'') (first_tag t)) 3 sent") simp
  have body: "or_else (case data item of None \<Rightarrow> None | Some d \<Rightarrow> data_chapterContent d) []
                = stored_body item" for item
    by (simp add: stored_body_def or_else_def split: option.splits)
  show ?thesis
  proof (cases "items res")
    case Nil
    then show ?thesis using assms(1) q by (simp add: getRelatedChapters_def)
  next
    case (Cons a as)
    then have "fst (getRelatedChapters env t sent) =
        Inr (map (\<lambda>item. \<lparr>title = or_else (case data item of None \<Rightarrow> None | Some d \<Rightarrow> data_title d)
                                   (asc ''Untitled''),
                          content = take 1500 (stored_body item)\<rparr>) (items res))"
      using assms(1) q by (simp add: getRelatedChapters_def body)
    then show ?thesis by simp
  qed
qed

theorem related_chapters_truncated_witness:
  "\<not> (falsy_tags (TagList [asc ''@Ashes'']) \<or> tags_length (TagList [asc ''@Ashes'']) = 0)
   \<and> fst (queryWixCMS (world None (answers []) [long_chapter]) (asc ''BackupChapters'')
            (FilterEq (asc ''storyTag'') (first_tag (TagList [asc ''@Ashes'']))) 3 [])
       = Inr \<lparr>items = [long_chapter]\<rparr>
   \<and> length (stored_body long_chapter) = 1600
   \<and> (\<exists>chs. fst (getRelatedChapters (world None (answers []) [long_chapter])
                    (TagList [asc ''@Ashes'']) []) = Inr chs
          \<and> length chs = 1
          \<and> content (chs ! 0) = take 1500 (stored_body long_chapter)
          \<and> length (content (chs ! 0)) = 1500)"
proof -
  have h1: "\<not> (falsy_tags (TagList [asc ''@Ashes'']) \<or> tags_length (TagList [asc ''@Ashes'']) = 0)"
    by (simp add: falsy_tags_def tags_length_def)
  have h2: "fst (queryWixCMS (world None (answers []) [long_chapter]) (asc ''BackupChapters'')
            (FilterEq (asc ''storyTag'') (first_tag (TagList [asc ''@Ashes'']))) 3 [])
       = Inr \<lparr>items = [long_chapter]\<rparr>"
    by (simp add: queryWixCMS_def queryWixCMS_try_def Let_def)
  have len: "length (stored_body long_chapter) = 1600"
    by (simp add: stored_body_def long_chapter_def)
  from related_chapters_truncated [OF h1 h2] obtain chs where
    c: "fst (getRelatedChapters (world None (answers []) [long_chapter])
              (TagList [asc ''@Ashes'']) []) = Inr chs"
      "length chs = length (items \<lparr>items = [long_chapter]\<rparr>)"
      "\<forall>i < length chs.
          content (chs ! i) = take 1500 (stored_body (items \<lparr>items = [long_chapter]\<rparr> ! i))
        \<and> length (content (chs ! i)) \<le> 1500
        \<and> (1500 < length (stored_body (items \<lparr>items = [long_chapter]\<rparr> ! i))
             \<longrightarrow> length (content (chs ! i)) = 1500)"
    by blast
  from c(2) have l1: "length chs = 1" by simp
  from c(3) l1 len have "content (chs ! 0) = take 1500 (stored_body long_chapter)
      \<and> length (content (chs ! 0)) = 1500"
    by simp
  with h1 h2 len c(1) l1 show ?thesis by blast
qed

section \<open>Properties: the endpoint\<close>

text \<open>
  C5. When the handler of a request throws, exactly one response is written: status 500
  with the action (or \<^verbatim>\<open>Action\<close> when the request names none) followed by
  \<^verbatim>\<open> failed\<close> as error and the message of the error as details.
\<close>

theorem handler_error_single_reply:
  assumes "dispatch env (case action b of None \<Rightarrow> asc ''devilPOV'' | Some a \<Rightarrow> a) b sent
             = (Inl e, sent')"
  shows "replies (devil_pov env b sent) =
           [\<lparr>status = 500,
             payload = Failure (or_else (action b) (asc ''Action'') @ asc '' failed'') (message e)\<rparr>]"
  using assms by (simp add: devil_pov_def devil_pov_try_def Let_def)

theorem handler_error_single_reply_witness:
  "dispatch (world (Some (asc ''sk'')) (answers (asc ''x'')) [])
      (case action (empty_body\<lparr>action := Some (asc ''noMercy'')\<rparr>) of
         None \<Rightarrow> asc ''devilPOV'' | Some a \<Rightarrow> a)
      (empty_body\<lparr>action := Some (asc ''noMercy'')\<rparr>) []
     = (Inl (Error (asc ''No text selected for rewrite'')), [])
   \<and> replies (devil_pov (world (Some (asc ''sk'')) (answers (asc ''x'')) [])
        (empty_body\<lparr>action := Some (asc ''noMercy'')\<rparr>) [])
     = [\<lparr>status = 500,
         payload = Failure (asc ''noMercy failed'') (asc ''No text selected for rewrite'')\<rparr>]"
proof -
  have h: "dispatch (world (Some (asc ''sk'')) (answers (asc ''x'')) [])
      (case action (empty_body\<lparr>action := Some (asc ''noMercy'')\<rparr>) of
         None \<Rightarrow> asc ''devilPOV'' | Some a \<Rightarrow> a)
      (empty_body\<lparr>action := Some (asc ''noMercy'')\<rparr>) []
     = (Inl (Error (asc ''No text selected for rewrite'')), [])"
    by (simp add: dispatch_def handleNoMercy_def empty_body_def blank_def)
  show ?thesis
    using h handler_error_single_reply [OF h]
    by (simp add: empty_body_def or_else_def asc_def)
qed

lemma sky_not_blank: "\<not> blank (Some (asc ''The sky was blue.''))"
  by (simp add: blank_def trim_def is_js_space_def asc_def)

text \<open>
  C8 (as the code has it). The request \<^verbatim>\<open>{action: "noMercy", selectedText: "The sky was blue."}\<close>,
  with a model caller that returns \<^verbatim>\<open>The sky bled violet fury.\<close>, is answered with status
  200 and the success envelope: that text as result, its length 25 as charsGenerated, and
  the elapsed time as processingTime.
\<close>

theorem sky_request_envelope:
  assumes "callAI env
             [chat_msg ''system'' (JStr noMercy_system),
              chat_msg ''user'' (JStr (noMercy_user @ asc ''The sky was blue.''))]
             (9 / 10) 1500 sent
           = (Inr (JStr (asc ''The sky bled violet fury.'')), sent')"
  shows "devil_pov env sky_request sent =
           \<lparr>replies = [\<lparr>status = 200,
                        payload = Success (JStr (asc ''The sky bled violet fury.'')) (JNum 25)
                                    (Date_now env sent' - Date_now env sent)\<rparr>],
            rejection = None,
            requests = sent'\<rparr>"
  using assms sky_not_blank
  by (simp add: devil_pov_def devil_pov_try_def dispatch_def handleNoMercy_def sky_request_def
        empty_body_def Let_def)

theorem sky_request_envelope_witness:
  "callAI (world (Some (asc ''sk'')) (answers (asc ''The sky bled violet fury.'')) [])
     [chat_msg ''system'' (JStr noMercy_system),
      chat_msg ''user'' (JStr (noMercy_user @ asc ''The sky was blue.''))]
     (9 / 10) 1500 []
   = (Inr (JStr (asc ''The sky bled violet fury.'')),
      [ChatCompletion (asc ''sk'') (asc ''Devil Muse'') PRIMARY_MODEL
         [chat_msg ''system'' (JStr noMercy_system),
          chat_msg ''user'' (JStr (noMercy_user @ asc ''The sky was blue.''))]
         (9 / 10) 1500])
   \<and> replies (devil_pov (world (Some (asc ''sk'')) (answers (asc ''The sky bled violet fury.'')) [])
        sky_request [])
     = [\<lparr>status = 200,
         payload = Success (JStr (asc ''The sky bled violet fury.'')) (JNum 25) 1\<rparr>]"
proof -
  have h: "callAI (world (Some (asc ''sk'')) (answers (asc ''The sky bled violet fury.'')) [])
     [chat_msg ''system'' (JStr noMercy_system),
      chat_msg ''user'' (JStr (noMercy_user @ asc ''The sky was blue.''))]
     (9 / 10) 1500 []
   = (Inr (JStr (asc ''The sky bled violet fury.'')),
      [ChatCompletion (asc ''sk'') (asc ''Devil Muse'') PRIMARY_MODEL
         [chat_msg ''system'' (JStr noMercy_system),
          chat_msg ''user'' (JStr (noMercy_user @ asc ''The sky was blue.''))]
         (9 / 10) 1500])"
    using callAI_answers [of "asc ''sk''" "asc ''The sky bled violet fury.''" "[]" _ _ _ "[]"]
    by simp
  show ?thesis
    using h sky_request_envelope [OF h] by simp
qed

text \<open>
  C8 as stated fails: \<^verbatim>\<open>The sky bled violet fury.\<close> has 25 characters, and the envelope
  reports 25, not 27.
\<close>

theorem sky_request_length_counterexample:
  "map payload
     (replies (devil_pov (world (Some (asc ''sk'')) (answers (asc ''The sky bled violet fury.'')) [])
        sky_request []))
     = [Success (JStr (asc ''The sky bled violet fury.'')) (JNum 25) 1]
   \<and> JNum 25 \<noteq> JNum 27"
  using sky_not_blank
  by (simp add: devil_pov_def devil_pov_try_def dispatch_def handleNoMercy_def sky_request_def
        empty_body_def Let_def callAI_answers)

section \<open>Properties: the critic personas\<close>

lemma critic_request_sel [simp]:
  "text' (critic_request p) = Some (asc ''Once upon a time.'')"
  "persona (critic_request p) = p"
  by (simp_all add: critic_request_def)







section \<open>Properties: the character chat\<close>

lemma callAI_loop_trace:
  "\<exists>new. snd (callAI_loop env k msgs t n ms sent) = sent @ new
       \<and> (\<forall>q \<in> set new. \<exists>m. q = ChatCompletion k (asc ''Devil Muse'') m msgs t n)"
proof (induction ms arbitrary: sent)
  case Nil
  then show ?case by simp
next
  case (Cons m ms)
  let ?r = "ChatCompletion k (asc ''Devil Muse'') m msgs t n"
  from Cons.IH [of "sent @ [?r]"] obtain new where
    n: "snd (callAI_loop env k msgs t n ms (sent @ [?r])) = (sent @ [?r]) @ new"
       "\<forall>q \<in> set new. \<exists>m. q = ChatCompletion k (asc ''Devil Muse'') m msgs t n"
    by blast
  show ?case
  proof (cases "candidate_content (fetch_openrouter env sent ?r)")
    case None
    then have "snd (callAI_loop env k msgs t n (m # ms) sent) = sent @ (?r # new)"
      using n(1) by (simp del: callAI_loop.simps(2) add: callAI_loop_step)
    moreover have "\<forall>q \<in> set (?r # new). \<exists>m. q = ChatCompletion k (asc ''Devil Muse'') m msgs t n"
      using n(2) by auto
    ultimately show ?thesis by blast
  next
    case (Some c)
    then have "snd (callAI_loop env k msgs t n (m # ms) sent) = sent @ [?r]"
      by (simp del: callAI_loop.simps(2) add: callAI_loop_step)
    then show ?thesis by auto
  qed
qed

lemma callAI_trace:
  "\<exists>new. snd (callAI env msgs t n sent) = sent @ new
       \<and> (\<forall>q \<in> set new. \<exists>k m. q = ChatCompletion k (asc ''Devil Muse'') m msgs t n)"
proof (cases "no_key (OPENROUTER_API_KEY env)")
  case True
  then show ?thesis by (intro exI [of _ "[]"]) (simp add: callAI_def)
next
  case False
  from callAI_loop_trace [of env "the (OPENROUTER_API_KEY env)" msgs t n
        "[PRIMARY_MODEL, BACKUP_MODEL, TERTIARY_MODEL]" sent]
  obtain new where
    n: "snd (callAI_loop env (the (OPENROUTER_API_KEY env)) msgs t n
              [PRIMARY_MODEL, BACKUP_MODEL, TERTIARY_MODEL] sent) = sent @ new"
       "\<forall>q \<in> set new. \<exists>m. q = ChatCompletion (the (OPENROUTER_API_KEY env))
                                       (asc ''Devil Muse'') m msgs t n"
    by blast
  have "snd (callAI env msgs t n sent) = sent @ new"
    using False n(1) by (simp only: callAI_def if_False)
  moreover have "\<forall>q \<in> set new. \<exists>k m. q = ChatCompletion k (asc ''Devil Muse'') m msgs t n"
    using n(2) by blast
  ultimately show ?thesis by (intro exI [of _ new] conjI)
qed

lemma queryWixCMS_sent:
  "snd (queryWixCMS env coll flt lmt sent) = sent @ [WixQuery coll flt lmt]"
  by (simp add: queryWixCMS_def Let_def)

lemma getCharacterContext_sent:
  "snd (getCharacterContext env t sent) =
     sent @ (if falsy_tags t \<or> tags_length t = 0 then []
             else [WixQuery (asc ''Characters'') (FilterEq (asc ''charactertags'') (first_tag t)) 1])"
  using queryWixCMS_sent [of env "asc ''Characters''" "FilterEq (asc ''charactertags'') (first_tag t)" 1 sent]
  by (auto simp: getCharacterContext_def split: prod.splits sum.splits list.splits)

lemma getChatHistory_sent:
  "snd (getChatHistory env t sent) =
     sent @ (if falsy_tags t then []
             else [WixQuery (asc ''ChatWithCharacters'') (FilterEq (asc ''charactertags'') (first_tag t)) 5])"
  using queryWixCMS_sent [of env "asc ''ChatWithCharacters''" "FilterEq (asc ''charactertags'') (first_tag t)" 5 sent]
  by (auto simp: getChatHistory_def split: prod.splits sum.splits)

lemma getRelatedChapters_sent:
  "snd (getRelatedChapters env t sent) =
     sent @ (if falsy_tags t \<or> tags_length t = 0 then []
             else [WixQuery (asc ''BackupChapters'') (FilterEq (asc ''storyTag'') (first_tag t)) 3])"
  using queryWixCMS_sent [of env "asc ''BackupChapters''" "FilterEq (asc ''storyTag'') (first_tag t)" 3 sent]
  by (auto simp: getRelatedChapters_def split: prod.splits sum.splits)

lemma getCatalystIntel_sent:
  "snd (getCatalystIntel env t sent) =
     sent @ (if falsy_tags t \<or> tags_length t = 0 then []
             else [WixQuery (asc ''Catalyst'') (FilterContains (asc ''title'') (first_tag t)) 1])"
  using queryWixCMS_sent [of env "asc ''Catalyst''" "FilterContains (asc ''title'') (first_tag t)" 1 sent]
  by (auto simp: getCatalystIntel_def split: prod.splits sum.splits list.splits)

lemma handleCharacterChat_trace:
  "\<exists>new. snd (handleCharacterChat env b sent) =
            sent @ (if blank (userMessage b) then [] else chat_queries b) @ new
       \<and> (\<forall>q \<in> set new. \<exists>k m sys.
             q = ChatCompletion k (asc ''Devil Muse'') m
                   ([chat_msg ''system'' (JStr sys)]
                    @ slice_last 70 (case chatHistory b of None \<Rightarrow> [] | Some h \<Rightarrow> h)
                    @ [chat_msg ''user'' (JStr (the (userMessage b)))])
                   (85 / 100) 500)"
proof (cases "blank (userMessage b)")
  case True
  then show ?thesis by (intro exI [of _ "[]"]) (simp add: handleCharacterChat_def)
next
  case False
  obtain r1 s1 where g1: "getCharacterContext env (characterTags b) sent = (r1, s1)"
    by (cases "getCharacterContext env (characterTags b) sent")
  obtain r2 s2 where g2: "getChatHistory env (characterTags b) s1 = (r2, s2)"
    by (cases "getChatHistory env (characterTags b) s1")
  obtain r3 s3 where g3: "getRelatedChapters env (storyTags b) s2 = (r3, s3)"
    by (cases "getRelatedChapters env (storyTags b) s2")
  obtain r4 s4 where g4: "getCatalystIntel env (characterTags b) s3 = (r4, s4)"
    by (cases "getCatalystIntel env (characterTags b) s3")
  define Q1 where "Q1 =
     (if falsy_tags (characterTags b) \<or> tags_length (characterTags b) = 0 then []
      else [WixQuery (asc ''Characters'')
              (FilterEq (asc ''charactertags'') (first_tag (characterTags b))) 1])"
  define Q2 where "Q2 =
     (if falsy_tags (characterTags b) then []
      else [WixQuery (asc ''ChatWithCharacters'')
              (FilterEq (asc ''charactertags'') (first_tag (characterTags b))) 5])"
  define Q3 where "Q3 =
     (if falsy_tags (storyTags b) \<or> tags_length (storyTags b) = 0 then []
      else [WixQuery (asc ''BackupChapters'')
              (FilterEq (asc ''storyTag'') (first_tag (storyTags b))) 3])"
  define Q4 where "Q4 =
     (if falsy_tags (characterTags b) \<or> tags_length (characterTags b) = 0 then []
      else [WixQuery (asc ''Catalyst'')
              (FilterContains (asc ''title'') (first_tag (characterTags b))) 1])"
  have e1: "s1 = sent @ Q1"
    using getCharacterContext_sent [of env "characterTags b" sent]
    by (simp only: g1 snd_conv Q1_def)
  have e2: "s2 = s1 @ Q2"
    using getChatHistory_sent [of env "characterTags b" s1]
    by (simp only: g2 snd_conv Q2_def)
  have e3: "s3 = s2 @ Q3"
    using getRelatedChapters_sent [of env "storyTags b" s2]
    by (simp only: g3 snd_conv Q3_def)
  have e4: "s4 = s3 @ Q4"
    using getCatalystIntel_sent [of env "characterTags b" s3]
    by (simp only: g4 snd_conv Q4_def)
  have cq: "chat_queries b = Q1 @ Q2 @ Q3 @ Q4"
    by (simp only: chat_queries_def Q1_def Q2_def Q3_def Q4_def)
  have s4: "s4 = sent @ chat_queries b"
    by (simp only: cq e1 e2 e3 e4 append_assoc)
  show ?thesis
  proof (cases "all4 r1 r2 r3 r4")
    case (Inl e)
    then have "snd (handleCharacterChat env b sent) = s4"
      using False by (simp add: handleCharacterChat_def g1 g2 g3 g4)
    then show ?thesis using s4 False by (intro exI [of _ "[]"]) simp
  next
    case (Inr ctx)
    obtain c h rc ci where ctx: "ctx = (c, h, rc, ci)" by (cases ctx) auto
    show ?thesis
    proof (cases "chat_system_prompt b c rc ci")
      case (Inl e)
      then have "snd (handleCharacterChat env b sent) = s4"
        using False Inr ctx by (simp add: handleCharacterChat_def g1 g2 g3 g4)
      then show ?thesis using s4 False by (intro exI [of _ "[]"]) simp
    next
      case sys: (Inr sys)
      let ?msgs = "[chat_msg ''system'' (JStr sys)]
                    @ slice_last 70 (case chatHistory b of None \<Rightarrow> [] | Some h \<Rightarrow> h)
                    @ [chat_msg ''user'' (JStr (the (userMessage b)))]"
      have eq: "handleCharacterChat env b sent = callAI env ?msgs (85 / 100) 500 s4"
        using False Inr ctx sys by (simp add: handleCharacterChat_def g1 g2 g3 g4)
      from callAI_trace [of env ?msgs "85 / 100" 500 s4] obtain new where
        n: "snd (callAI env ?msgs (85 / 100) 500 s4) = s4 @ new"
           "\<forall>q \<in> set new. \<exists>k m. q = ChatCompletion k (asc ''Devil Muse'') m ?msgs (85 / 100) 500"
        by blast
      have "snd (handleCharacterChat env b sent)
              = sent @ (if blank (userMessage b) then [] else chat_queries b) @ new"
        using eq n(1) s4 False by simp
      moreover have "\<forall>q \<in> set new. \<exists>k m sys.
             q = ChatCompletion k (asc ''Devil Muse'') m
                   ([chat_msg ''system'' (JStr sys)]
                    @ slice_last 70 (case chatHistory b of None \<Rightarrow> [] | Some h \<Rightarrow> h)
                    @ [chat_msg ''user'' (JStr (the (userMessage b)))])
                   (85 / 100) 500"
      proof
        fix q assume "q \<in> set new"
        with n(2) obtain k m where
          "q = ChatCompletion k (asc ''Devil Muse'') m ?msgs (85 / 100) 500"
          by blast
        then show "\<exists>k m sys.
             q = ChatCompletion k (asc ''Devil Muse'') m
                   ([chat_msg ''system'' (JStr sys)]
                    @ slice_last 70 (case chatHistory b of None \<Rightarrow> [] | Some h \<Rightarrow> h)
                    @ [chat_msg ''user'' (JStr (the (userMessage b)))])
                   (85 / 100) 500"
          by (intro exI [of _ k] exI [of _ m] exI [of _ sys])
      qed
      ultimately show ?thesis by (intro exI [of _ new] conjI)
    qed
  qed
qed

lemma chat_queries_wix: "q \<in> set (chat_queries b) \<Longrightarrow> \<exists>c f l. q = WixQuery c f l"
  by (auto simp: chat_queries_def split: if_splits)

lemma chat_queries_catalyst:
  "WixQuery (asc ''Catalyst'') f l \<in> set (chat_queries b)
     \<Longrightarrow> f = FilterContains (asc ''title'') (first_tag (characterTags b)) \<and> l = 1"
  by (auto simp: chat_queries_def split: if_splits)

text \<open>
  C6. Every conversation that a characterChat request sends to the model consists of the
  system message, then the last 70 messages of the session history supplied with the
  request, in their order, then the user message. Of a history with more than 70 messages
  exactly 70 are sent; a history with at most 70 messages is sent in full.
\<close>

theorem characterChat_history_window:
  assumes "chatHistory b = Some h"
    and "ChatCompletion k x m msgs t n
           \<in> set (drop (length sent) (snd (handleCharacterChat env b sent)))"
  shows "(\<exists>sys. msgs = [chat_msg ''system'' (JStr sys)]
                     @ drop (length h - 70) h
                     @ [chat_msg ''user'' (JStr (the (userMessage b)))])
       \<and> (70 < length h \<longrightarrow> length (drop (length h - 70) h) = 70)
       \<and> (length h \<le> 70 \<longrightarrow> drop (length h - 70) h = h)"
proof -
  from handleCharacterChat_trace [of env b sent] obtain new where
    tr: "snd (handleCharacterChat env b sent) =
            sent @ (if blank (userMessage b) then [] else chat_queries b) @ new"
    and llm: "\<forall>q \<in> set new. \<exists>k m sys.
             q = ChatCompletion k (asc ''Devil Muse'') m
                   ([chat_msg ''system'' (JStr sys)]
                    @ slice_last 70 (case chatHistory b of None \<Rightarrow> [] | Some h \<Rightarrow> h)
                    @ [chat_msg ''user'' (JStr (the (userMessage b)))])
                   (85 / 100) 500"
    by blast
  have "ChatCompletion k x m msgs t n
          \<in> set (if blank (userMessage b) then [] else chat_queries b) \<union> set new"
    using assms(2) by (simp add: tr)
  then have "ChatCompletion k x m msgs t n \<in> set new"
    using chat_queries_wix [of "ChatCompletion k x m msgs t n" b]
    by (auto split: if_splits)
  with llm obtain k' m' sys where
    "ChatCompletion k x m msgs t n = ChatCompletion k' (asc ''Devil Muse'') m'
                   ([chat_msg ''system'' (JStr sys)]
                    @ slice_last 70 (case chatHistory b of None \<Rightarrow> [] | Some h \<Rightarrow> h)
                    @ [chat_msg ''user'' (JStr (the (userMessage b)))])
                   (85 / 100) 500"
    by blast
  then have "msgs = [chat_msg ''system'' (JStr sys)]
                     @ drop (length h - 70) h
                     @ [chat_msg ''user'' (JStr (the (userMessage b)))]"
    using assms(1) by (simp add: slice_last_def)
  then show ?thesis by auto
qed

lemma who_not_blank: "\<not> blank (Some (asc ''Who are you?''))"
  by (simp add: blank_def trim_def is_js_space_def asc_def)

lemma chat_request_run:
  "handleCharacterChat (world (Some (asc ''sk'')) (answers (asc ''I am the dark.'')) [])
     chat_request []
   = (Inr (JStr (asc ''I am the dark.'')),
      [ChatCompletion (asc ''sk'') (asc ''Devil Muse'') PRIMARY_MODEL
         ([chat_msg ''system''
             (JStr (asc ''You are '' @ asc ''undefined'' @ chat_system_intro
                    @ asc ''\<newline>'' @ asc ''\<newline>''))]
          @ slice_last 70 long_history
          @ [chat_msg ''user'' (JStr (asc ''Who are you?''))])
         (85 / 100) 500])"
  using who_not_blank
  by (simp add: handleCharacterChat_def chat_request_def empty_body_def
        getCharacterContext_def getChatHistory_def getRelatedChapters_def getCatalystIntel_def
        falsy_tags_def tags_length_def all4_def all2_def chat_system_prompt_def tags_line_def
        template_def truthy_def Let_def callAI_answers)

theorem characterChat_history_window_witness:
  "chatHistory chat_request = Some long_history
   \<and> length long_history = 80
   \<and> ChatCompletion (asc ''sk'') (asc ''Devil Muse'') PRIMARY_MODEL
         ([chat_msg ''system''
             (JStr (asc ''You are '' @ asc ''undefined'' @ chat_system_intro
                    @ asc ''\<newline>'' @ asc ''\<newline>''))]
          @ slice_last 70 long_history
          @ [chat_msg ''user'' (JStr (asc ''Who are you?''))])
         (85 / 100) 500
       \<in> set (drop (length ([] :: request list))
               (snd (handleCharacterChat
                       (world (Some (asc ''sk'')) (answers (asc ''I am the dark.'')) [])
                       chat_request [])))
   \<and> (\<exists>sys. [chat_msg ''system''
                   (JStr (asc ''You are '' @ asc ''undefined'' @ chat_system_intro
                          @ asc ''\<newline>'' @ asc ''\<newline>''))]
                @ slice_last 70 long_history
                @ [chat_msg ''user'' (JStr (asc ''Who are you?''))]
              = [chat_msg ''system'' (JStr sys)]
                @ drop (length long_history - 70) long_history
                @ [chat_msg ''user'' (JStr (the (userMessage chat_request)))])
   \<and> length (drop (length long_history - 70) long_history) = 70"
proof -
  have h1: "chatHistory chat_request = Some long_history"
    by (simp add: chat_request_def)
  have len: "length long_history = 80"
    by (simp add: long_history_def)
  have h2: "ChatCompletion (asc ''sk'') (asc ''Devil Muse'') PRIMARY_MODEL
         ([chat_msg ''system''
             (JStr (asc ''You are '' @ asc ''undefined'' @ chat_system_intro
                    @ asc ''\<newline>'' @ asc ''\<newline>''))]
          @ slice_last 70 long_history
          @ [chat_msg ''user'' (JStr (asc ''Who are you?''))])
         (85 / 100) 500
       \<in> set (drop (length ([] :: request list))
               (snd (handleCharacterChat
                       (world (Some (asc ''sk'')) (answers (asc ''I am the dark.'')) [])
                       chat_request [])))"
    by (simp add: chat_request_run)
  from characterChat_history_window [OF h1 h2] len h1 h2 show ?thesis
    by simp
qed

lemma chat_system_prompt_catalystTags:
  "chat_system_prompt (b\<lparr>catalystTags := x\<rparr>) c rc ci = chat_system_prompt b c rc ci"
  by (simp add: chat_system_prompt_def Let_def cong: sum.case_cong if_cong)

text \<open>
  C10. A characterChat request gives the same result whatever its catalystTags field
  holds, and every query it sends to the Catalyst collection is a substring match on the
  title with the first character tag as operand, limit 1.
\<close>

theorem characterChat_ignores_catalystTags:
  "handleCharacterChat env (b\<lparr>catalystTags := x\<rparr>) sent = handleCharacterChat env b sent
   \<and> (\<forall>f l. WixQuery (asc ''Catalyst'') f l
                \<in> set (drop (length sent) (snd (handleCharacterChat env b sent)))
            \<longrightarrow> f = FilterContains (asc ''title'') (first_tag (characterTags b)) \<and> l = 1)"
proof (rule conjI)
  show "handleCharacterChat env (b\<lparr>catalystTags := x\<rparr>) sent = handleCharacterChat env b sent"
    by (simp add: handleCharacterChat_def chat_system_prompt_catalystTags
          split: prod.splits sum.splits)
next
  have "f = FilterContains (asc ''title'') (first_tag (characterTags b)) \<and> l = 1"
    if a: "WixQuery (asc ''Catalyst'') f l
                \<in> set (drop (length sent) (snd (handleCharacterChat env b sent)))"
    for f l
  proof -
  from handleCharacterChat_trace [of env b sent] obtain new where
    tr: "snd (handleCharacterChat env b sent) =
            sent @ (if blank (userMessage b) then [] else chat_queries b) @ new"
    and llm: "\<forall>q \<in> set new. \<exists>k m sys.
             q = ChatCompletion k (asc ''Devil Muse'') m
                   ([chat_msg ''system'' (JStr sys)]
                    @ slice_last 70 (case chatHistory b of None \<Rightarrow> [] | Some h \<Rightarrow> h)
                    @ [chat_msg ''user'' (JStr (the (userMessage b)))])
                   (85 / 100) 500"
    by blast
  have "WixQuery (asc ''Catalyst'') f l
          \<in> set (if blank (userMessage b) then [] else chat_queries b) \<union> set new"
    using a by (simp add: tr)
  moreover have "WixQuery (asc ''Catalyst'') f l \<notin> set new"
    using llm by auto
  ultimately have "WixQuery (asc ''Catalyst'') f l \<in> set (chat_queries b)"
    by (auto split: if_splits)
  then show ?thesis
    by (rule chat_queries_catalyst)
  qed
  then show "\<forall>f l. WixQuery (asc ''Catalyst'') f l
                \<in> set (drop (length sent) (snd (handleCharacterChat env b sent)))
            \<longrightarrow> f = FilterContains (asc ''title'') (first_tag (characterTags b)) \<and> l = 1"
    by blast
qed

lemma tagged_chat_request_sel:
  "userMessage tagged_chat_request = Some (asc ''Who are you?'')"
  "characterTags tagged_chat_request = TagList [asc ''@Lilith'']"
  "catalystTags tagged_chat_request = TagList [asc ''@Storm'']"
  by (simp_all add: tagged_chat_request_def chat_request_def empty_body_def)

theorem characterChat_ignores_catalystTags_witness:
  "WixQuery (asc ''Catalyst'') (FilterContains (asc ''title'') (Some (asc ''@Lilith''))) 1
       \<in> set (drop (length ([] :: request list))
               (snd (handleCharacterChat
                       (world (Some (asc ''sk'')) (answers (asc ''I am the dark.'')) [])
                       tagged_chat_request [])))
   \<and> catalystTags tagged_chat_request = TagList [asc ''@Storm'']
   \<and> first_tag (characterTags tagged_chat_request) = Some (asc ''@Lilith'')
   \<and> handleCharacterChat (world (Some (asc ''sk'')) (answers (asc ''I am the dark.'')) [])
         (tagged_chat_request\<lparr>catalystTags := NoTags\<rparr>) []
       = handleCharacterChat (world (Some (asc ''sk'')) (answers (asc ''I am the dark.'')) [])
           tagged_chat_request []"
proof -
  let ?W = "world (Some (asc ''sk'')) (answers (asc ''I am the dark.'')) []"
  from handleCharacterChat_trace [of ?W tagged_chat_request "[]"] obtain new where
    tr: "snd (handleCharacterChat ?W tagged_chat_request []) =
           [] @ (if blank (userMessage tagged_chat_request) then []
                 else chat_queries tagged_chat_request) @ new"
    by blast
  have q: "WixQuery (asc ''Catalyst'') (FilterContains (asc ''title'') (Some (asc ''@Lilith''))) 1
             \<in> set (chat_queries tagged_chat_request)"
    by (simp add: chat_queries_def tagged_chat_request_sel falsy_tags_def tags_length_def
          first_tag_def)
  have h: "WixQuery (asc ''Catalyst'') (FilterContains (asc ''title'') (Some (asc ''@Lilith''))) 1
       \<in> set (drop (length ([] :: request list))
               (snd (handleCharacterChat ?W tagged_chat_request [])))"
    using q who_not_blank by (simp add: tr tagged_chat_request_sel)
  note inst = characterChat_ignores_catalystTags [where env = ?W and b = tagged_chat_request
      and x = NoTags and sent = "[]"]
  from inst have e: "handleCharacterChat ?W (tagged_chat_request\<lparr>catalystTags := NoTags\<rparr>) []
       = handleCharacterChat ?W tagged_chat_request []"
    by (rule conjunct1)
  from inst h have "FilterContains (asc ''title'') (Some (asc ''@Lilith''))
      = FilterContains (asc ''title'') (first_tag (characterTags tagged_chat_request))"
    by blast
  then have t: "first_tag (characterTags tagged_chat_request) = Some (asc ''@Lilith'')"
    by simp
  from h tagged_chat_request_sel(3) t e show ?thesis
    by (intro conjI)
qed

end
